theory Spec2Isabelle
  imports Main "HOL-Library.Word"
begin

unbundle bit_operations_syntax

section \<open>The Local proxy channel driver (channels/chan\_local.c)\<close>

text \<open>
  A shallow embedding of \<^verbatim>\<open>chan_local.c\<close>. Pointers to channels and to private
  structures are references into two stores held by the \<open>world\<close>; a pointer that may
  be \<^verbatim>\<open>NULL\<close> is an \<open>option\<close>. Every function of the driver takes the world and
  returns the world it leaves behind together with its C return value. A function that
  dereferences \<^verbatim>\<open>NULL\<close> ends in \<open>Fault\<close>.

  The driver runs beside other threads. Wherever it gives up its locks and sleeps, the
  model applies the next step of a schedule: a list of functions on the world, each
  standing for everything the other threads do during that sleep. A function whose
  back-off loop outlasts the schedule ends in \<open>Stuck\<close>. A blocking lock is taken at
  once: the wait for its holder is part of the step before it.

  \<open>local_pvt_destroy\<close> frees the private structure. The entry points of the driver take
  their private structure from \<^verbatim>\<open>tech_pvt\<close>, which each hangup sets to \<^verbatim>\<open>NULL\<close>
  before anything is freed; a structure can be freed under a function only while that
  function sleeps without the mutex. So the model tests it where the function wakes up:
  a function that wakes up on a freed private structure ends in \<open>Fault\<close>. The forwarder
  \<open>local_queue_frame\<close>, which is handed the private structure by its caller, tests it on
  entry as well.

  C strings are modelled by their contents (a \<open>string\<close> without the terminating NUL).
  Calls to \<^verbatim>\<open>ast_log\<close> and \<^verbatim>\<open>ast_debug\<close> are left out, except in
  \<open>local_alloc\<close>, whose result records whether the error about option \<open>j\<close> was logged.
\<close>

subsection \<open>Data model\<close>

type_synonym chan_ref = nat
type_synonym pvt_ref = nat

datatype ast_frame_type =
    AST_FRAME_DTMF_END
  | AST_FRAME_VOICE
  | AST_FRAME_VIDEO
  | AST_FRAME_CONTROL
  | AST_FRAME_NULL
  | AST_FRAME_TEXT
  | AST_FRAME_HTML
  | AST_FRAME_DTMF_BEGIN
  | AST_FRAME_OTHER nat

text \<open>
  The control conditions are the members of \<^verbatim>\<open>enum ast_control_frame_type\<close> that the
  driver names; \<open>AST_CONTROL_OTHER n\<close> stands for every other member.
\<close>

datatype ast_control =
    AST_CONTROL_HANGUP
  | AST_CONTROL_RINGING
  | AST_CONTROL_ANSWER
  | AST_CONTROL_HOLD
  | AST_CONTROL_UNHOLD
  | AST_CONTROL_CONNECTED_LINE
  | AST_CONTROL_REDIRECTING
  | AST_CONTROL_OTHER nat

datatype ast_option = AST_OPTION_T38_STATE | AST_OPTION_OTHER nat

datatype ast_channel_state = AST_STATE_DOWN | AST_STATE_RING | AST_STATE_RINGING | AST_STATE_OTHER nat

datatype ast_device_state = AST_DEVICE_INVALID | AST_DEVICE_NOT_INUSE | AST_DEVICE_INUSE

record ast_party_id =
  name_valid :: bool
  number_valid :: bool
  number_str :: "string option"
  subaddress_valid :: bool

record ast_party_caller =
  caller_id :: ast_party_id
  caller_ani :: ast_party_id
  caller_ani2 :: int

record ast_party_connected_line =
  connected_id :: ast_party_id
  connected_ani :: ast_party_id
  connected_ani2 :: int
  connected_source :: int

record ast_party_redirecting =
  redirecting_from :: ast_party_id
  redirecting_to :: ast_party_id
  redirecting_count :: int
  redirecting_reason :: int

record ast_party_dialed =
  dialed_number_str :: "string option"
  dialed_subaddress_valid :: bool

text \<open>
  The union \<^verbatim>\<open>subclass\<close> and the union \<^verbatim>\<open>data\<close> of a frame, by the member the driver
  writes: a control condition, a digit or a plain integer; a caller's buffer (by its
  identity), the party data serialised by \<^verbatim>\<open>ast_connected_line_build_data\<close> and
  \<^verbatim>\<open>ast_redirecting_build_data\<close>, a text, or the 32-bit hangup cause.
\<close>

datatype frame_subclass = SubControl ast_control | SubDigit char | SubInteger int

datatype frame_data =
    DataNone
  | DataPtr nat
  | DataConnectedLine ast_party_connected_line
  | DataRedirecting ast_party_redirecting
  | DataText string
  | DataUint32 "32 word"

record ast_frame =
  frametype :: ast_frame_type
  subclass_integer :: frame_subclass
  datalen :: int
  data_ptr :: frame_data
  len :: nat

text \<open>
  A channel, with the fields the driver reads or writes. \<open>ch_lockcnt\<close> counts the
  holds of the channel's lock by the running thread; \<open>ch_busy\<close> says that another
  thread holds it, so that \<^verbatim>\<open>ast_channel_trylock\<close> fails. \<open>ch_softhangup\<close> is what
  \<^verbatim>\<open>ast_check_hangup\<close> reports.
\<close>

record ast_channel =
  ch_tech_pvt :: "pvt_ref option"
  ch_bridge :: "chan_ref option"
  ch_readq :: "ast_frame list"
  ch_generator :: bool
  ch_monitor :: "nat option"
  ch_audiohooks :: "nat option"
  ch_caller :: ast_party_caller
  ch_connected :: ast_party_connected_line
  ch_redirecting :: ast_party_redirecting
  ch_dialed :: ast_party_dialed
  ch_state :: ast_channel_state
  ch_softhangup :: bool
  ch_answered_elsewhere :: bool
  ch_hangupcause :: int
  ch_language :: string
  ch_accountcode :: string
  ch_musicclass :: string
  ch_context :: string
  ch_exten :: string
  ch_varshead :: "(string \<times> string) list"
  ch_lockcnt :: nat
  ch_busy :: bool

record ast_jb_conf =
  jb_flags :: "32 word"
  jb_max_size :: int
  jb_resync_threshold :: int
  jb_impl :: string
  jb_target_extra :: int

text \<open>
  \<^verbatim>\<open>struct local_pvt\<close>. \<open>pvt_lock\<close> counts the holds of the mutex by the running
  thread; \<open>pvt_busy\<close> says that another thread holds it, so that
  \<^verbatim>\<open>ast_mutex_trylock\<close> fails.
\<close>

record local_pvt =
  pvt_lock :: nat
  pvt_busy :: bool
  pvt_flags :: "32 word"
  pvt_context :: string
  pvt_exten :: string
  pvt_reqformat :: int
  pvt_jb_conf :: ast_jb_conf
  pvt_owner :: "chan_ref option"
  pvt_chan :: "chan_ref option"
  pvt_u_owner :: "nat option"
  pvt_u_chan :: "nat option"

text \<open>
  What the driver asks of the switch and that leaves no trace in the fields above is
  recorded as an event.
\<close>

datatype event =
    EvMasquerade chan_ref chan_ref
  | EvGroupUpdate chan_ref chan_ref
  | EvHangup chan_ref
  | EvMohStart chan_ref
  | EvMohStop chan_ref
  | EvModuleUserRemove "nat option"
  | EvCdrUpdate chan_ref
  | EvCcParamsInit chan_ref chan_ref
  | EvDatastoreInherit chan_ref chan_ref
  | EvSetCcInterfaces chan_ref string
  | EvPbxStart chan_ref

text \<open>
  The world: the channels, the private structures, the list \<^verbatim>\<open>locals\<close> (head first),
  the private structures handed to \<open>local_pvt_destroy\<close> so far (in order), and the
  events.
\<close>

record world =
  chans :: "chan_ref \<Rightarrow> ast_channel"
  pvts :: "pvt_ref \<Rightarrow> local_pvt"
  locals :: "pvt_ref list"
  destroyed :: "pvt_ref list"
  events :: "event list"

datatype 'a result = Returned 'a | Fault | Stuck

type_synonym schedule = "(world \<Rightarrow> world) list"

text \<open>The private structure has been handed to \<open>local_pvt_destroy\<close>.\<close>

definition freed :: "world \<Rightarrow> pvt_ref \<Rightarrow> bool" where
  "freed w p \<longleftrightarrow> p \<in> set (destroyed w)"

subsection \<open>Flags\<close>

definition LOCAL_GLARE_DETECT :: "32 word" where "LOCAL_GLARE_DETECT = push_bit 0 1"
definition LOCAL_CANCEL_QUEUE :: "32 word" where "LOCAL_CANCEL_QUEUE = push_bit 1 1"
definition LOCAL_ALREADY_MASQED :: "32 word" where "LOCAL_ALREADY_MASQED = push_bit 2 1"
definition LOCAL_LAUNCHED_PBX :: "32 word" where "LOCAL_LAUNCHED_PBX = push_bit 3 1"
definition LOCAL_NO_OPTIMIZATION :: "32 word" where "LOCAL_NO_OPTIMIZATION = push_bit 4 1"
definition LOCAL_BRIDGE :: "32 word" where "LOCAL_BRIDGE = push_bit 5 1"
definition LOCAL_MOH_PASSTHRU :: "32 word" where "LOCAL_MOH_PASSTHRU = push_bit 6 1"

text \<open>\<^verbatim>\<open>AST_JB_ENABLED\<close> is \<^verbatim>\<open>(1 << 0)\<close> in \<^verbatim>\<open>abstract_jb.h\<close>.\<close>

definition AST_JB_ENABLED :: "32 word" where "AST_JB_ENABLED = push_bit 0 1"

definition ast_test_flag :: "32 word \<Rightarrow> 32 word \<Rightarrow> bool" where
  "ast_test_flag fl f = (fl AND f \<noteq> 0)"

definition ast_set_flag :: "32 word \<Rightarrow> 32 word \<Rightarrow> 32 word" where
  "ast_set_flag fl f = fl OR f"

definition ast_clear_flag :: "32 word \<Rightarrow> 32 word \<Rightarrow> 32 word" where
  "ast_clear_flag fl f = fl AND NOT f"

subsection \<open>Strings\<close>

text \<open>\<^verbatim>\<open>strchr\<close>: the index of the first occurrence, \<open>None\<close> for \<^verbatim>\<open>NULL\<close>.\<close>

fun strchr :: "string \<Rightarrow> char \<Rightarrow> nat option" where
  "strchr [] c = None"
| "strchr (x # xs) c = (if x = c then Some 0 else map_option Suc (strchr xs c))"

text \<open>\<^verbatim>\<open>strrchr\<close>: the index of the last occurrence.\<close>

fun strrchr :: "string \<Rightarrow> char \<Rightarrow> nat option" where
  "strrchr [] c = None"
| "strrchr (x # xs) c =
     (case strrchr xs c of
        Some i \<Rightarrow> Some (Suc i)
      | None \<Rightarrow> if x = c then Some 0 else None)"

text \<open>
  \<^verbatim>\<open>ast_copy_string(dst, src, size)\<close> copies at most \<open>size - 1\<close> characters and
  terminates the copy.
\<close>

definition ast_copy_string :: "string \<Rightarrow> nat \<Rightarrow> string" where
  "ast_copy_string src sz = take (sz - 1) src"

subsection \<open>The switch\<close>

text \<open>
  The functions of the switch whose results the driver branches on, and the two buffer
  sizes of \<^verbatim>\<open>struct local_pvt\<close>, are parameters of the model.
\<close>

record switch =
  AST_MAX_EXTENSION :: nat
  AST_MAX_CONTEXT :: nat
  ast_exists_extension :: "string \<Rightarrow> string \<Rightarrow> string option \<Rightarrow> bool"
  ast_bridged_channel :: "world \<Rightarrow> chan_ref \<Rightarrow> chan_ref option"
  ast_channel_queryoption :: "world \<Rightarrow> chan_ref \<Rightarrow> ast_option \<Rightarrow> int"
  ast_pbx_start :: "world \<Rightarrow> chan_ref \<Rightarrow> int"
  ast_connected_line_build_data :: "ast_party_connected_line \<Rightarrow> int"
  ast_redirecting_build_data :: "ast_party_redirecting \<Rightarrow> int"

subsection \<open>\<open>local_devicestate\<close>\<close>

text \<open>
  The extension and the context that \<open>local_devicestate\<close> cuts out of its argument:
  the text before the first \<open>@\<close>, and the text after it up to the first \<open>/\<close>.
\<close>

definition devicestate_parse :: "string \<Rightarrow> (string \<times> string) option" where
  "devicestate_parse data =
     (case strchr data CHR ''@'' of
        None \<Rightarrow> None
      | Some i \<Rightarrow>
          let exten = take i data;
              context = drop (Suc i) data;
              context = (case strchr context CHR ''/'' of
                           Some j \<Rightarrow> take j context
                         | None \<Rightarrow> context)
          in Some (exten, context))"

text \<open>The traversal of \<^verbatim>\<open>locals\<close>, stopping at the first match.\<close>

fun devicestate_traverse :: "world \<Rightarrow> string \<Rightarrow> string \<Rightarrow> pvt_ref list \<Rightarrow> ast_device_state" where
  "devicestate_traverse w exten context [] = AST_DEVICE_NOT_INUSE"
| "devicestate_traverse w exten context (lp # rest) =
     (if exten = pvt_exten (pvts w lp) \<and> context = pvt_context (pvts w lp) \<and>
         pvt_owner (pvts w lp) \<noteq> None
      then AST_DEVICE_INUSE
      else devicestate_traverse w exten context rest)"

definition local_devicestate :: "switch \<Rightarrow> world \<Rightarrow> string \<Rightarrow> ast_device_state" where
  "local_devicestate sw w data =
     (case devicestate_parse data of
        None \<Rightarrow> AST_DEVICE_INVALID
      | Some (exten, context) \<Rightarrow>
          if \<not> ast_exists_extension sw context exten None
          then AST_DEVICE_INVALID
          else devicestate_traverse w exten context (locals w))"

subsection \<open>\<open>local_alloc\<close>\<close>

definition g_jb_conf :: ast_jb_conf where
  "g_jb_conf = \<lparr> jb_flags = 0, jb_max_size = - 1, jb_resync_threshold = - 1,
                 jb_impl = [], jb_target_extra = - 1 \<rparr>"

text \<open>
  The parsing part of \<open>local_alloc\<close>: the private structure it fills in, and whether
  it logged the error about \<open>j\<close> without \<open>n\<close>. \<open>max_exten\<close> and \<open>max_context\<close> are
  the sizes of the buffers \<^verbatim>\<open>exten\<close> and \<^verbatim>\<open>context\<close>.
\<close>

definition local_alloc_parse :: "nat \<Rightarrow> nat \<Rightarrow> string \<Rightarrow> int \<Rightarrow> local_pvt \<times> bool" where
  "local_alloc_parse max_exten max_context data format =
     (let exten = ast_copy_string data max_exten;
          (exten, opts) = (case strchr exten CHR ''/'' of
                             Some i \<Rightarrow> (take i exten, Some (drop (Suc i) exten))
                           | None \<Rightarrow> (exten, None));
          has = (\<lambda>c. case opts of Some os \<Rightarrow> strchr os c \<noteq> None | None \<Rightarrow> False);
          fl0 = (if has CHR ''n'' then ast_set_flag 0 LOCAL_NO_OPTIMIZATION else 0);
          jb_ok = (has CHR ''j'' \<and> ast_test_flag fl0 LOCAL_NO_OPTIMIZATION);
          logged = (has CHR ''j'' \<and> \<not> ast_test_flag fl0 LOCAL_NO_OPTIMIZATION);
          jb = (if jb_ok then g_jb_conf\<lparr>jb_flags := ast_set_flag (jb_flags g_jb_conf) AST_JB_ENABLED\<rparr>
                else g_jb_conf);
          fl1 = (if has CHR ''b'' then ast_set_flag fl0 LOCAL_BRIDGE else fl0);
          fl2 = (if has CHR ''m'' then ast_set_flag fl1 LOCAL_MOH_PASSTHRU else fl1);
          (exten, c) = (case strchr exten CHR ''@'' of
                          Some i \<Rightarrow> (take i exten, Some (drop (Suc i) exten))
                        | None \<Rightarrow> (exten, None));
          context = ast_copy_string (case c of Some s \<Rightarrow> s | None \<Rightarrow> ''default'')
                      max_context
      in (\<lparr> pvt_lock = 0, pvt_busy = False, pvt_flags = fl2, pvt_context = context, pvt_exten = exten,
            pvt_reqformat = format, pvt_jb_conf = jb, pvt_owner = None, pvt_chan = None,
            pvt_u_owner = None, pvt_u_chan = None \<rparr>, logged))"

text \<open>
  \<open>local_alloc\<close>: \<open>tmp\<close> is what \<^verbatim>\<open>ast_calloc\<close> returns (\<open>None\<close> when it fails).
  The new structure goes to the head of \<^verbatim>\<open>locals\<close>.
\<close>

definition local_alloc :: "switch \<Rightarrow> pvt_ref option \<Rightarrow> world \<Rightarrow> string \<Rightarrow> int \<Rightarrow> world \<times> pvt_ref option \<times> bool" where
  "local_alloc sw tmp w data format =
     (case tmp of
        None \<Rightarrow> (w, None, False)
      | Some t \<Rightarrow>
          let (pv, logged) =
                local_alloc_parse (AST_MAX_EXTENSION sw) (AST_MAX_CONTEXT sw) data format
          in (w\<lparr>pvts := (pvts w)(t := pv), locals := t # locals w\<rparr>, Some t, logged))"

subsection \<open>Locks and the primitives of the switch\<close>

definition upd_chan :: "world \<Rightarrow> chan_ref \<Rightarrow> (ast_channel \<Rightarrow> ast_channel) \<Rightarrow> world" where
  "upd_chan w c f = w\<lparr>chans := (chans w)(c := f (chans w c))\<rparr>"

definition upd_pvt :: "world \<Rightarrow> pvt_ref \<Rightarrow> (local_pvt \<Rightarrow> local_pvt) \<Rightarrow> world" where
  "upd_pvt w p f = w\<lparr>pvts := (pvts w)(p := f (pvts w p))\<rparr>"

definition log_event :: "world \<Rightarrow> event \<Rightarrow> world" where
  "log_event w ev = w\<lparr>events := events w @ [ev]\<rparr>"

definition ast_mutex_lock :: "world \<Rightarrow> pvt_ref \<Rightarrow> world" where
  "ast_mutex_lock w p = upd_pvt w p (\<lambda>pv. pv\<lparr>pvt_lock := Suc (pvt_lock pv)\<rparr>)"

text \<open>Unlocking a mutex that the running thread does not hold fails (a nonzero result).\<close>

definition ast_mutex_unlock :: "world \<Rightarrow> pvt_ref \<Rightarrow> world \<times> int" where
  "ast_mutex_unlock w p =
     (if pvt_lock (pvts w p) = 0 then (w, 1)
      else (upd_pvt w p (\<lambda>pv. pv\<lparr>pvt_lock := pvt_lock pv - 1\<rparr>), 0))"

definition ast_mutex_trylock :: "world \<Rightarrow> pvt_ref \<Rightarrow> world \<times> int" where
  "ast_mutex_trylock w p =
     (if pvt_busy (pvts w p) then (w, 16) else (ast_mutex_lock w p, 0))"

definition ast_channel_lock :: "world \<Rightarrow> chan_ref \<Rightarrow> world" where
  "ast_channel_lock w c = upd_chan w c (\<lambda>ch. ch\<lparr>ch_lockcnt := Suc (ch_lockcnt ch)\<rparr>)"

definition ast_channel_unlock :: "world \<Rightarrow> chan_ref \<Rightarrow> world" where
  "ast_channel_unlock w c = upd_chan w c (\<lambda>ch. ch\<lparr>ch_lockcnt := ch_lockcnt ch - 1\<rparr>)"

definition ast_channel_trylock :: "world \<Rightarrow> chan_ref \<Rightarrow> world \<times> int" where
  "ast_channel_trylock w c =
     (if ch_busy (chans w c) then (w, 16) else (ast_channel_lock w c, 0))"

text \<open>
  \<^verbatim>\<open>DEADLOCK_AVOIDANCE(&p->lock)\<close>: unlock, sleep, lock. \<open>e\<close> is what the other
  threads do during the sleep.
\<close>

definition DEADLOCK_AVOIDANCE :: "(world \<Rightarrow> world) \<Rightarrow> world \<Rightarrow> pvt_ref \<Rightarrow> world" where
  "DEADLOCK_AVOIDANCE e w p = ast_mutex_lock (e (fst (ast_mutex_unlock w p))) p"

text \<open>\<^verbatim>\<open>CHANNEL_DEADLOCK_AVOIDANCE(chan)\<close>: unlock the channel, sleep, lock it.\<close>

definition CHANNEL_DEADLOCK_AVOIDANCE :: "(world \<Rightarrow> world) \<Rightarrow> world \<Rightarrow> chan_ref \<Rightarrow> world" where
  "CHANNEL_DEADLOCK_AVOIDANCE e w c = ast_channel_lock (e (ast_channel_unlock w c)) c"

definition ast_check_hangup :: "world \<Rightarrow> chan_ref \<Rightarrow> bool" where
  "ast_check_hangup w c = ch_softhangup (chans w c)"

definition ast_setstate :: "world \<Rightarrow> chan_ref \<Rightarrow> ast_channel_state \<Rightarrow> world" where
  "ast_setstate w c st = upd_chan w c (\<lambda>ch. ch\<lparr>ch_state := st\<rparr>)"

text \<open>\<^verbatim>\<open>ast_queue_frame\<close> puts a copy of the frame at the tail of the read queue.\<close>

definition ast_queue_frame :: "world \<Rightarrow> chan_ref \<Rightarrow> ast_frame \<Rightarrow> world" where
  "ast_queue_frame w c f = upd_chan w c (\<lambda>ch. ch\<lparr>ch_readq := ch_readq ch @ [f]\<rparr>)"

definition null_frame :: "ast_frame_type \<Rightarrow> ast_frame" where
  "null_frame ft = \<lparr> frametype = ft, subclass_integer = SubInteger 0, datalen = 0,
                     data_ptr = DataNone, len = 0 \<rparr>"

text \<open>
  \<^verbatim>\<open>ast_queue_hangup\<close> queues a hangup control frame and marks the channel as hung
  up.
\<close>

definition ast_queue_hangup :: "world \<Rightarrow> chan_ref \<Rightarrow> world" where
  "ast_queue_hangup w c =
     upd_chan (ast_queue_frame w c
                 ((null_frame AST_FRAME_CONTROL)\<lparr>subclass_integer := SubControl AST_CONTROL_HANGUP\<rparr>))
       c (\<lambda>ch. ch\<lparr>ch_softhangup := True\<rparr>)"

text \<open>
  \<^verbatim>\<open>pbx_builtin_getvar_helper\<close> and \<^verbatim>\<open>pbx_builtin_setvar_helper\<close> on the variables
  of a channel: the first entry of that name; the new entry replaces it, at the head.
\<close>

definition pbx_builtin_getvar_helper :: "world \<Rightarrow> chan_ref \<Rightarrow> string \<Rightarrow> string option" where
  "pbx_builtin_getvar_helper w c name = map_of (ch_varshead (chans w c)) name"

definition pbx_builtin_setvar_helper :: "world \<Rightarrow> chan_ref \<Rightarrow> string \<Rightarrow> string \<Rightarrow> world" where
  "pbx_builtin_setvar_helper w c name val =
     upd_chan w c (\<lambda>ch. ch\<lparr>ch_varshead :=
       (name, val) # filter (\<lambda>(n, v). n \<noteq> name) (ch_varshead ch)\<rparr>)"

definition ast_connected_line_copy_to_caller :: "ast_party_caller \<Rightarrow> ast_party_connected_line \<Rightarrow> ast_party_caller" where
  "ast_connected_line_copy_to_caller dest src =
     dest\<lparr>caller_id := connected_id src, caller_ani := connected_ani src,
          caller_ani2 := connected_ani2 src\<rparr>"

definition ast_connected_line_copy_from_caller :: "ast_party_connected_line \<Rightarrow> ast_party_caller \<Rightarrow> ast_party_connected_line" where
  "ast_connected_line_copy_from_caller dest src =
     dest\<lparr>connected_id := caller_id src, connected_ani := caller_ani src,
          connected_ani2 := caller_ani2 src\<rparr>"

subsection \<open>Flags of the private structure\<close>

definition IS_OUTBOUND :: "world \<Rightarrow> chan_ref \<Rightarrow> pvt_ref \<Rightarrow> bool" where
  "IS_OUTBOUND w a b = (pvt_chan (pvts w b) = Some a)"

definition test_pvt_flag :: "world \<Rightarrow> pvt_ref \<Rightarrow> 32 word \<Rightarrow> bool" where
  "test_pvt_flag w p f = ast_test_flag (pvt_flags (pvts w p)) f"

definition set_pvt_flag :: "world \<Rightarrow> pvt_ref \<Rightarrow> 32 word \<Rightarrow> world" where
  "set_pvt_flag w p f = upd_pvt w p (\<lambda>pv. pv\<lparr>pvt_flags := ast_set_flag (pvt_flags pv) f\<rparr>)"

definition clear_pvt_flag :: "world \<Rightarrow> pvt_ref \<Rightarrow> 32 word \<Rightarrow> world" where
  "clear_pvt_flag w p f = upd_pvt w p (\<lambda>pv. pv\<lparr>pvt_flags := ast_clear_flag (pvt_flags pv) f\<rparr>)"

subsection \<open>\<open>local_pvt_destroy\<close>, \<open>local_bridgedchannel\<close>, \<open>local_queryoption\<close>\<close>

definition local_pvt_destroy :: "world \<Rightarrow> pvt_ref \<Rightarrow> world" where
  "local_pvt_destroy w pvt = w\<lparr>destroyed := destroyed w @ [pvt]\<rparr>"

definition local_bridgedchannel :: "world \<Rightarrow> chan_ref \<Rightarrow> chan_ref \<Rightarrow> world \<times> chan_ref option" where
  "local_bridgedchannel w chan bridge =
     (case ch_tech_pvt (chans w bridge) of
        None \<Rightarrow> (w, None)
      | Some p \<Rightarrow>
          let w1 = ast_mutex_lock w p;
              bridged =
                (if test_pvt_flag w1 p LOCAL_BRIDGE
                 then (case (if Some bridge = pvt_owner (pvts w1 p)
                             then pvt_chan (pvts w1 p) else pvt_owner (pvts w1 p)) of
                         None \<Rightarrow> bridge
                       | Some opposite \<Rightarrow>
                           (case ch_bridge (chans w1 opposite) of
                              Some b \<Rightarrow> b
                            | None \<Rightarrow> opposite))
                 else bridge)
          in (fst (ast_mutex_unlock w1 p), Some bridged))"

text \<open>
  The body of \<open>local_queryoption\<close> from the label \<^verbatim>\<open>try_again\<close> on; \<open>chan\<close> is
  recomputed at each round, as the source does before each \<^verbatim>\<open>goto\<close>.
\<close>

fun queryoption_try_again :: "switch \<Rightarrow> schedule \<Rightarrow> world \<Rightarrow> chan_ref \<Rightarrow> pvt_ref \<Rightarrow> ast_option \<Rightarrow> (world \<times> schedule \<times> int) result" where
  "queryoption_try_again sw sched w ast p opt =
     (case (if IS_OUTBOUND w ast p then pvt_owner (pvts w p) else pvt_chan (pvts w p)) of
        None \<Rightarrow> Returned (fst (ast_mutex_unlock w p), sched, - 1)
      | Some chan \<Rightarrow>
          (case ast_channel_trylock w chan of
             (w1, rc) \<Rightarrow>
               if rc \<noteq> 0
               then (case sched of
                       [] \<Rightarrow> Stuck
                     | e # rest \<Rightarrow>
                         if freed (DEADLOCK_AVOIDANCE e w1 p) p then Fault
                         else queryoption_try_again sw rest (DEADLOCK_AVOIDANCE e w1 p) ast p opt)
               else
                 (case ast_bridged_channel sw w1 chan of
                    None \<Rightarrow>
                      Returned (ast_channel_unlock (fst (ast_mutex_unlock w1 p)) chan, sched, - 1)
                  | Some bridged \<Rightarrow>
                      (case ast_channel_trylock w1 bridged of
                         (w2, rc2) \<Rightarrow>
                           if rc2 \<noteq> 0
                           then (case sched of
                                   [] \<Rightarrow> Stuck
                                 | e # rest \<Rightarrow>
                                     if freed (DEADLOCK_AVOIDANCE e (ast_channel_unlock w2 chan) p) p
                                     then Fault
                                     else queryoption_try_again sw rest
                                            (DEADLOCK_AVOIDANCE e (ast_channel_unlock w2 chan) p)
                                            ast p opt)
                           else
                             Returned
                               (ast_channel_unlock
                                  (ast_channel_unlock (fst (ast_mutex_unlock w2 p)) chan)
                                  bridged,
                                sched, ast_channel_queryoption sw w2 bridged opt)))))"

declare queryoption_try_again.simps [simp del]

definition local_queryoption :: "switch \<Rightarrow> schedule \<Rightarrow> world \<Rightarrow> chan_ref \<Rightarrow> ast_option \<Rightarrow> (world \<times> schedule \<times> int) result" where
  "local_queryoption sw sched w ast opt =
     (case ch_tech_pvt (chans w ast) of
        None \<Rightarrow> Returned (w, sched, - 1)
      | Some p \<Rightarrow>
          if opt \<noteq> AST_OPTION_T38_STATE then Returned (w, sched, - 1)
          else queryoption_try_again sw sched (ast_mutex_lock w p) ast p opt)"

subsection \<open>\<open>local_queue_frame\<close>\<close>

text \<open>
  The loop ``ensure that we have both channels locked''. It ends with the world, the
  rest of the schedule, the last value of \<open>other\<close> and \<open>0\<close>, or with \<open>- 1\<close> when the
  mutex of the private structure was not held on entry. Each round of back-off is one
  step of the schedule; the inner loop of the source, which repeats
  \<^verbatim>\<open>CHANNEL_DEADLOCK_AVOIDANCE(us)\<close> until the mutex is free, is part of that step and
  ends with the mutex taken.
\<close>

fun queue_frame_lock_both :: "schedule \<Rightarrow> world \<Rightarrow> pvt_ref \<Rightarrow> bool \<Rightarrow> chan_ref option \<Rightarrow> bool \<Rightarrow> chan_ref option \<Rightarrow> (world \<times> schedule \<times> chan_ref option \<times> int) result" where
  "queue_frame_lock_both sched w p isoutbound us us_locked other =
     (case other of
        None \<Rightarrow> Returned (w, sched, None, 0)
      | Some oth \<Rightarrow>
          (case ast_channel_trylock w oth of
             (w1, rc) \<Rightarrow>
               if rc = 0 then Returned (w1, sched, Some oth, 0)
               else
                 (case ast_mutex_unlock w1 p of
                    (w2, res) \<Rightarrow>
                      if res \<noteq> 0 then Returned (w2, sched, Some oth, - 1)
                      else
                        (case sched of
                           [] \<Rightarrow> Stuck
                         | e # rest \<Rightarrow>
                             let w3 = (case us of
                                         Some u \<Rightarrow>
                                           if us_locked
                                           then ast_mutex_lock (CHANNEL_DEADLOCK_AVOIDANCE e w2 u) p
                                           else ast_mutex_lock (e w2) p
                                       | None \<Rightarrow> ast_mutex_lock (e w2) p)
                             in if freed w3 p then Fault
                                else queue_frame_lock_both rest w3 p isoutbound us us_locked
                                       (if isoutbound then pvt_owner (pvts w3 p)
                                        else pvt_chan (pvts w3 p))))))"

declare queue_frame_lock_both.simps [simp del]

text \<open>
  What \<open>local_queue_frame\<close> does once the loop is over: the test of
  \<open>LOCAL_CANCEL_QUEUE\<close>, and the delivery.
\<close>

definition queue_frame_deliver :: "world \<Rightarrow> pvt_ref \<Rightarrow> ast_frame option \<Rightarrow> chan_ref option \<Rightarrow> (world \<times> int) result" where
  "queue_frame_deliver w p f other =
     (if test_pvt_flag w p LOCAL_CANCEL_QUEUE
      then
        let w1 = fst (ast_mutex_unlock w p);
            w2 = local_pvt_destroy w1 p;
            w3 = (case other of Some oth \<Rightarrow> ast_channel_unlock w2 oth | None \<Rightarrow> w2)
        in Returned (w3, - 1)
      else
        (case other of
           None \<Rightarrow> Returned (clear_pvt_flag w p LOCAL_GLARE_DETECT, 0)
         | Some oth \<Rightarrow>
             (case f of
                None \<Rightarrow> Fault
              | Some fr \<Rightarrow>
                  let w1 = (if frametype fr = AST_FRAME_CONTROL \<and>
                               subclass_integer fr = SubControl AST_CONTROL_RINGING
                            then ast_setstate w oth AST_STATE_RINGING else w);
                      w2 = ast_queue_frame w1 oth fr;
                      w3 = ast_channel_unlock w2 oth
                  in Returned (clear_pvt_flag w3 p LOCAL_GLARE_DETECT, 0))))"

definition local_queue_frame :: "schedule \<Rightarrow> world \<Rightarrow> pvt_ref \<Rightarrow> bool \<Rightarrow> ast_frame option \<Rightarrow> chan_ref option \<Rightarrow> bool \<Rightarrow> (world \<times> schedule \<times> int) result" where
  "local_queue_frame sched w p isoutbound f us us_locked =
     (if freed w p then Fault
      else
        (case (if isoutbound then pvt_owner (pvts w p) else pvt_chan (pvts w p)) of
           None \<Rightarrow> Returned (w, sched, 0)
         | Some other \<Rightarrow>
             if (case us of
                   Some u \<Rightarrow> ch_generator (chans w u) \<and> ch_generator (chans w other)
                 | None \<Rightarrow> False)
             then Returned (w, sched, 0)
             else
               (case queue_frame_lock_both sched (set_pvt_flag w p LOCAL_GLARE_DETECT) p
                       isoutbound us us_locked (Some other) of
                  Fault \<Rightarrow> Fault
                | Stuck \<Rightarrow> Stuck
                | Returned (w1, sched1, other1, res) \<Rightarrow>
                    if res \<noteq> 0 then Returned (w1, sched1, - 1)
                    else
                      (case queue_frame_deliver w1 p f other1 of
                         Fault \<Rightarrow> Fault
                       | Stuck \<Rightarrow> Stuck
                       | Returned (w2, r) \<Rightarrow> Returned (w2, sched1, r)))))"

text \<open>
  The tail shared by the entry points that forward one frame: lock, forward, unlock
  when the forwarder reports success.
\<close>

definition unlock_if_ok :: "pvt_ref \<Rightarrow> (world \<times> schedule \<times> int) result \<Rightarrow> (world \<times> schedule \<times> int) result" where
  "unlock_if_ok p r =
     (case r of
        Returned (w, sched, res) \<Rightarrow>
          Returned (if res = 0 then fst (ast_mutex_unlock w p) else w, sched, res)
      | Fault \<Rightarrow> Fault
      | Stuck \<Rightarrow> Stuck)"

subsection \<open>\<open>local_answer\<close>\<close>

definition local_answer :: "schedule \<Rightarrow> world \<Rightarrow> chan_ref \<Rightarrow> (world \<times> schedule \<times> int) result" where
  "local_answer sched w ast =
     (case ch_tech_pvt (chans w ast) of
        None \<Rightarrow> Returned (w, sched, - 1)
      | Some p \<Rightarrow>
          let w1 = ast_mutex_lock w p;
              isoutbound = IS_OUTBOUND w1 ast p
          in if isoutbound
             then unlock_if_ok p
                    (local_queue_frame sched w1 p isoutbound
                       (Some ((null_frame AST_FRAME_CONTROL)
                                \<lparr>subclass_integer := SubControl AST_CONTROL_ANSWER\<rparr>))
                       (Some ast) True)
             else Returned (w1, sched, - 1))"

subsection \<open>\<open>check_bridge\<close>\<close>

definition caller_is_set :: "ast_party_caller \<Rightarrow> bool" where
  "caller_is_set c \<longleftrightarrow>
     name_valid (caller_id c) \<or> number_valid (caller_id c) \<or> subaddress_valid (caller_id c) \<or>
     name_valid (caller_ani c) \<or> number_valid (caller_ani c) \<or> subaddress_valid (caller_ani c)"

definition redirecting_is_set :: "ast_party_redirecting \<Rightarrow> bool" where
  "redirecting_is_set r \<longleftrightarrow>
     name_valid (redirecting_from r) \<or> number_valid (redirecting_from r) \<or>
     subaddress_valid (redirecting_from r) \<or> name_valid (redirecting_to r) \<or>
     number_valid (redirecting_to r) \<or> subaddress_valid (redirecting_to r)"

definition dialed_is_set :: "ast_party_dialed \<Rightarrow> bool" where
  "dialed_is_set d \<longleftrightarrow> dialed_number_str d \<noteq> None \<or> dialed_subaddress_valid d"

text \<open>
  The swaps and the masquerade, with \<open>owner\<close>, \<open>chan\<close> and the bridge peer \<open>peer\<close> of
  \<open>chan\<close> locked as needed. Each assignment reads the store as the assignments before
  it left it.
\<close>

definition swap_monitor :: "world \<Rightarrow> chan_ref \<Rightarrow> chan_ref \<Rightarrow> world" where
  "swap_monitor w owner peer =
     (if ch_monitor (chans w owner) \<noteq> None \<and> ch_monitor (chans w peer) = None
      then let tmp = ch_monitor (chans w owner);
               w1 = upd_chan w owner (\<lambda>ch. ch\<lparr>ch_monitor := ch_monitor (chans w peer)\<rparr>)
           in upd_chan w1 peer (\<lambda>ch. ch\<lparr>ch_monitor := tmp\<rparr>)
      else w)"

definition swap_audiohooks :: "world \<Rightarrow> chan_ref \<Rightarrow> chan_ref \<Rightarrow> world" where
  "swap_audiohooks w owner chan =
     (if ch_audiohooks (chans w chan) \<noteq> None
      then let audiohooks_swapper = ch_audiohooks (chans w chan);
               w1 = upd_chan w chan (\<lambda>ch. ch\<lparr>ch_audiohooks := ch_audiohooks (chans w owner)\<rparr>)
           in upd_chan w1 owner (\<lambda>ch. ch\<lparr>ch_audiohooks := audiohooks_swapper\<rparr>)
      else w)"

definition swap_caller :: "world \<Rightarrow> chan_ref \<Rightarrow> chan_ref \<Rightarrow> world" where
  "swap_caller w owner peer =
     (if caller_is_set (ch_caller (chans w owner))
      then let tmp = ch_caller (chans w owner);
               w1 = upd_chan w owner (\<lambda>ch. ch\<lparr>ch_caller := ch_caller (chans w peer)\<rparr>)
           in upd_chan w1 peer (\<lambda>ch. ch\<lparr>ch_caller := tmp\<rparr>)
      else w)"

definition swap_redirecting :: "world \<Rightarrow> chan_ref \<Rightarrow> chan_ref \<Rightarrow> world" where
  "swap_redirecting w owner peer =
     (if redirecting_is_set (ch_redirecting (chans w owner))
      then let tmp = ch_redirecting (chans w owner);
               w1 = upd_chan w owner (\<lambda>ch. ch\<lparr>ch_redirecting := ch_redirecting (chans w peer)\<rparr>)
           in upd_chan w1 peer (\<lambda>ch. ch\<lparr>ch_redirecting := tmp\<rparr>)
      else w)"

definition swap_dialed :: "world \<Rightarrow> chan_ref \<Rightarrow> chan_ref \<Rightarrow> world" where
  "swap_dialed w owner peer =
     (if dialed_is_set (ch_dialed (chans w owner))
      then let tmp = ch_dialed (chans w owner);
               w1 = upd_chan w owner (\<lambda>ch. ch\<lparr>ch_dialed := ch_dialed (chans w peer)\<rparr>)
           in upd_chan w1 peer (\<lambda>ch. ch\<lparr>ch_dialed := tmp\<rparr>)
      else w)"

definition check_bridge_masquerade :: "world \<Rightarrow> pvt_ref \<Rightarrow> chan_ref \<Rightarrow> chan_ref \<Rightarrow> chan_ref \<Rightarrow> world" where
  "check_bridge_masquerade w p owner chan peer =
     (let w1 = swap_monitor w owner peer;
          w2 = swap_audiohooks w1 owner chan;
          w3 = swap_caller w2 owner peer;
          w4 = swap_redirecting w3 owner peer;
          w5 = swap_dialed w4 owner peer;
          w6 = log_event w5 (EvGroupUpdate chan owner);
          w7 = log_event w6 (EvMasquerade owner peer)
      in set_pvt_flag w7 p LOCAL_ALREADY_MASQED)"

definition check_bridge :: "switch \<Rightarrow> world \<Rightarrow> pvt_ref \<Rightarrow> world" where
  "check_bridge sw w p =
     (case (pvt_chan (pvts w p), pvt_owner (pvts w p)) of
        (Some chan, Some owner) \<Rightarrow>
          if test_pvt_flag w p LOCAL_ALREADY_MASQED \<or> test_pvt_flag w p LOCAL_NO_OPTIMIZATION \<or>
             ch_bridge (chans w chan) \<noteq> ast_bridged_channel sw w chan
          then w
          else
            (case ch_bridge (chans w chan) of
               None \<Rightarrow> w
             | Some peer \<Rightarrow>
                 if ch_readq (chans w owner) \<noteq> [] then w
                 else
                   (case ast_channel_trylock w peer of
                      (w1, rc) \<Rightarrow>
                        if rc \<noteq> 0 then w1
                        else if ast_check_hangup w1 peer then w1
                        else
                          (case ast_channel_trylock w1 owner of
                             (w2, rc2) \<Rightarrow>
                               if rc2 \<noteq> 0 then ast_channel_unlock w2 peer
                               else
                                 let w3 = (if \<not> ast_check_hangup w2 owner
                                           then check_bridge_masquerade w2 p owner chan peer
                                           else w2);
                                     w4 = ast_channel_unlock w3 owner
                                 in ast_channel_unlock w4 peer)))
      | _ \<Rightarrow> w)"

subsection \<open>\<open>local_write\<close>, \<open>local_fixup\<close>\<close>

definition local_write :: "switch \<Rightarrow> schedule \<Rightarrow> world \<Rightarrow> chan_ref \<Rightarrow> ast_frame option \<Rightarrow> (world \<times> schedule \<times> int) result" where
  "local_write sw sched w ast f =
     (case ch_tech_pvt (chans w ast) of
        None \<Rightarrow> Returned (w, sched, - 1)
      | Some p \<Rightarrow>
          let w1 = ast_mutex_lock w p;
              isoutbound = IS_OUTBOUND w1 ast p;
              w2 = (if isoutbound \<and>
                       (case f of
                          Some fr \<Rightarrow> frametype fr = AST_FRAME_VOICE \<or> frametype fr = AST_FRAME_VIDEO
                        | None \<Rightarrow> False)
                    then check_bridge sw w1 p else w1)
          in if \<not> test_pvt_flag w2 p LOCAL_ALREADY_MASQED
             then unlock_if_ok p (local_queue_frame sched w2 p isoutbound f (Some ast) True)
             else Returned (fst (ast_mutex_unlock w2 p), sched, 0))"

definition local_fixup :: "world \<Rightarrow> chan_ref \<Rightarrow> chan_ref \<Rightarrow> world \<times> int" where
  "local_fixup w oldchan newchan =
     (case ch_tech_pvt (chans w newchan) of
        None \<Rightarrow> (w, - 1)
      | Some p \<Rightarrow>
          let w1 = ast_mutex_lock w p
          in if pvt_owner (pvts w1 p) \<noteq> Some oldchan \<and> pvt_chan (pvts w1 p) \<noteq> Some oldchan
             then (fst (ast_mutex_unlock w1 p), - 1)
             else
               let w2 = (if pvt_owner (pvts w1 p) = Some oldchan
                         then upd_pvt w1 p (\<lambda>pv. pv\<lparr>pvt_owner := Some newchan\<rparr>)
                         else upd_pvt w1 p (\<lambda>pv. pv\<lparr>pvt_chan := Some newchan\<rparr>))
               in (fst (ast_mutex_unlock w2 p), 0))"

subsection \<open>\<open>local_indicate\<close> and the senders of digits, text and HTML\<close>

text \<open>
  \<open>dlen\<close> is the \<^verbatim>\<open>size_t datalen\<close> of the caller; the field \<^verbatim>\<open>datalen\<close> of the frame
  is an \<^verbatim>\<open>int\<close>, so the assignment keeps the low 32 bits, read as a signed number.
\<close>

definition local_indicate :: "switch \<Rightarrow> schedule \<Rightarrow> world \<Rightarrow> chan_ref \<Rightarrow> ast_control \<Rightarrow> frame_data \<Rightarrow> nat \<Rightarrow> (world \<times> schedule \<times> int) result" where
  "local_indicate sw sched w ast condition dat dlen =
     (case ch_tech_pvt (chans w ast) of
        None \<Rightarrow> Returned (w, sched, - 1)
      | Some p \<Rightarrow>
          if \<not> test_pvt_flag w p LOCAL_MOH_PASSTHRU \<and> condition = AST_CONTROL_HOLD
          then Returned (log_event w (EvMohStart ast), sched, 0)
          else if \<not> test_pvt_flag w p LOCAL_MOH_PASSTHRU \<and> condition = AST_CONTROL_UNHOLD
          then Returned (log_event w (EvMohStop ast), sched, 0)
          else if condition = AST_CONTROL_CONNECTED_LINE \<or> condition = AST_CONTROL_REDIRECTING
          then
            (let w1 = ast_mutex_lock w p;
                 isoutbound = IS_OUTBOUND w1 ast p;
                 this_channel = (if isoutbound then pvt_chan (pvts w1 p) else pvt_owner (pvts w1 p));
                 the_other_channel = (if isoutbound then pvt_owner (pvts w1 p) else pvt_chan (pvts w1 p))
             in case the_other_channel of
                  None \<Rightarrow> Returned (fst (ast_mutex_unlock w1 p), sched, 0)
                | Some other \<Rightarrow>
                    (case this_channel of
                       None \<Rightarrow> Fault
                     | Some this_chan \<Rightarrow>
                         let w2 = (if condition = AST_CONTROL_CONNECTED_LINE \<and> isoutbound
                                   then upd_chan w1 other (\<lambda>ch. ch\<lparr>ch_caller :=
                                          ast_connected_line_copy_to_caller (ch_caller ch)
                                            (ch_connected (chans w1 this_chan))\<rparr>)
                                   else w1);
                             f = (if condition = AST_CONTROL_CONNECTED_LINE
                                  then (null_frame AST_FRAME_CONTROL)
                                         \<lparr>subclass_integer := SubControl condition,
                                          datalen := ast_connected_line_build_data sw
                                                       (ch_connected (chans w2 this_chan)),
                                          data_ptr := DataConnectedLine
                                                       (ch_connected (chans w2 this_chan))\<rparr>
                                  else (null_frame AST_FRAME_CONTROL)
                                         \<lparr>subclass_integer := SubControl condition,
                                          datalen := ast_redirecting_build_data sw
                                                       (ch_redirecting (chans w2 this_chan)),
                                          data_ptr := DataRedirecting
                                                       (ch_redirecting (chans w2 this_chan))\<rparr>)
                         in unlock_if_ok p
                              (local_queue_frame sched w2 p isoutbound (Some f) (Some ast) True)))
          else
            (let w1 = ast_mutex_lock w p;
                 isoutbound = IS_OUTBOUND w1 ast p;
                 f = (null_frame AST_FRAME_CONTROL)
                       \<lparr>subclass_integer := SubControl condition,
                        datalen := sint (word_of_nat dlen :: 32 word), data_ptr := dat\<rparr>
             in unlock_if_ok p
                  (local_queue_frame sched w1 p isoutbound (Some f) (Some ast) True)))"

definition local_digit_begin :: "schedule \<Rightarrow> world \<Rightarrow> chan_ref \<Rightarrow> char \<Rightarrow> (world \<times> schedule \<times> int) result" where
  "local_digit_begin sched w ast digit =
     (case ch_tech_pvt (chans w ast) of
        None \<Rightarrow> Returned (w, sched, - 1)
      | Some p \<Rightarrow>
          let w1 = ast_mutex_lock w p;
              isoutbound = IS_OUTBOUND w1 ast p;
              f = (null_frame AST_FRAME_DTMF_BEGIN)\<lparr>subclass_integer := SubDigit digit\<rparr>
          in unlock_if_ok p
               (local_queue_frame sched w1 p isoutbound (Some f) (Some ast) False))"

definition local_digit_end :: "schedule \<Rightarrow> world \<Rightarrow> chan_ref \<Rightarrow> char \<Rightarrow> nat \<Rightarrow> (world \<times> schedule \<times> int) result" where
  "local_digit_end sched w ast digit duration =
     (case ch_tech_pvt (chans w ast) of
        None \<Rightarrow> Returned (w, sched, - 1)
      | Some p \<Rightarrow>
          let w1 = ast_mutex_lock w p;
              isoutbound = IS_OUTBOUND w1 ast p;
              f = (null_frame AST_FRAME_DTMF_END)\<lparr>subclass_integer := SubDigit digit, len := duration\<rparr>
          in unlock_if_ok p
               (local_queue_frame sched w1 p isoutbound (Some f) (Some ast) False))"

definition local_sendtext :: "schedule \<Rightarrow> world \<Rightarrow> chan_ref \<Rightarrow> string \<Rightarrow> (world \<times> schedule \<times> int) result" where
  "local_sendtext sched w ast text =
     (case ch_tech_pvt (chans w ast) of
        None \<Rightarrow> Returned (w, sched, - 1)
      | Some p \<Rightarrow>
          let w1 = ast_mutex_lock w p;
              isoutbound = IS_OUTBOUND w1 ast p;
              f = (null_frame AST_FRAME_TEXT)
                    \<lparr>datalen := sint (word_of_nat (length text + 1) :: 32 word),
                     data_ptr := DataText text\<rparr>
          in unlock_if_ok p
               (local_queue_frame sched w1 p isoutbound (Some f) (Some ast) False))"

definition local_sendhtml :: "schedule \<Rightarrow> world \<Rightarrow> chan_ref \<Rightarrow> int \<Rightarrow> frame_data \<Rightarrow> int \<Rightarrow> (world \<times> schedule \<times> int) result" where
  "local_sendhtml sched w ast subcl dat dlen =
     (case ch_tech_pvt (chans w ast) of
        None \<Rightarrow> Returned (w, sched, - 1)
      | Some p \<Rightarrow>
          let w1 = ast_mutex_lock w p;
              isoutbound = IS_OUTBOUND w1 ast p;
              f = (null_frame AST_FRAME_HTML)
                    \<lparr>subclass_integer := SubInteger subcl, datalen := dlen, data_ptr := dat\<rparr>
          in unlock_if_ok p
               (local_queue_frame sched w1 p isoutbound (Some f) (Some ast) False))"

subsection \<open>\<open>local_call\<close>\<close>

text \<open>
  The lock dance from the label \<^verbatim>\<open>start_over\<close>: the caller holds \<open>p->owner\<close>; the
  dance ends with \<open>p->chan\<close> and the mutex of \<open>p\<close> held as well.
\<close>

fun call_lock_dance :: "schedule \<Rightarrow> world \<Rightarrow> pvt_ref \<Rightarrow> (world \<times> schedule) result" where
  "call_lock_dance sched w p =
     (case pvt_chan (pvts w p) of
        None \<Rightarrow> Fault
      | Some chan \<Rightarrow>
          (case ast_channel_trylock w chan of
             (w1, rc) \<Rightarrow>
               if rc \<noteq> 0
               then
                 (case pvt_owner (pvts w1 p) of
                    None \<Rightarrow> Fault
                  | Some owner \<Rightarrow>
                      (case sched of
                         [] \<Rightarrow> Stuck
                       | e # rest \<Rightarrow>
                           if freed (e (ast_channel_unlock w1 owner)) p then Fault
                           else
                             (case pvt_owner (pvts (e (ast_channel_unlock w1 owner)) p) of
                                None \<Rightarrow> Fault
                              | Some owner2 \<Rightarrow>
                                  call_lock_dance rest
                                    (ast_channel_lock (e (ast_channel_unlock w1 owner)) owner2) p)))
               else
                 (case ast_mutex_trylock w1 p of
                    (w2, rc2) \<Rightarrow>
                      if rc2 \<noteq> 0
                      then
                        (case pvt_owner (pvts w2 p) of
                           None \<Rightarrow> Fault
                         | Some owner \<Rightarrow>
                             (case sched of
                                [] \<Rightarrow> Stuck
                              | e # rest \<Rightarrow>
                                  if freed (e (ast_channel_unlock (ast_channel_unlock w2 chan) owner)) p
                                  then Fault
                                  else
                                    (case pvt_owner
                                            (pvts (e (ast_channel_unlock (ast_channel_unlock w2 chan) owner)) p) of
                                       None \<Rightarrow> Fault
                                     | Some owner2 \<Rightarrow>
                                         call_lock_dance rest
                                           (ast_channel_lock
                                              (e (ast_channel_unlock (ast_channel_unlock w2 chan) owner))
                                              owner2) p)))
                      else Returned (w2, sched))))"

declare call_lock_dance.simps [simp del]

text \<open>\<^verbatim>\<open>S_COR(a, b, c)\<close>: \<open>b\<close> when \<open>a\<close> holds and \<open>b\<close> is not empty, else \<open>c\<close>.\<close>

definition S_COR :: "bool \<Rightarrow> string option \<Rightarrow> string option \<Rightarrow> string option" where
  "S_COR a b c = (if a \<and> b \<noteq> None \<and> b \<noteq> Some [] then b else c)"

text \<open>\<open>local_call\<close> once the three locks are held.\<close>

definition call_locked :: "switch \<Rightarrow> world \<Rightarrow> pvt_ref \<Rightarrow> chan_ref \<Rightarrow> chan_ref \<Rightarrow> chan_ref \<Rightarrow> string \<Rightarrow> world \<times> int" where
  "call_locked sw w p ast chan owner dest =
     (let w1 = upd_chan w chan (\<lambda>ch. ch\<lparr>ch_redirecting := ch_redirecting (chans w owner)\<rparr>);
          w2 = upd_chan w1 chan (\<lambda>ch. ch\<lparr>ch_dialed := ch_dialed (chans w1 owner)\<rparr>);
          w3 = upd_chan w2 chan (\<lambda>ch. ch\<lparr>ch_caller :=
                 ast_connected_line_copy_to_caller (ch_caller ch) (ch_connected (chans w2 owner))\<rparr>);
          w4 = upd_chan w3 chan (\<lambda>ch. ch\<lparr>ch_connected :=
                 ast_connected_line_copy_from_caller (ch_connected ch) (ch_caller (chans w3 owner))\<rparr>);
          w5 = upd_chan w4 chan (\<lambda>ch. ch\<lparr>ch_language := ch_language (chans w4 owner)\<rparr>);
          w6 = upd_chan w5 chan (\<lambda>ch. ch\<lparr>ch_accountcode := ch_accountcode (chans w5 owner)\<rparr>);
          w7 = upd_chan w6 chan (\<lambda>ch. ch\<lparr>ch_musicclass := ch_musicclass (chans w6 owner)\<rparr>);
          w8 = log_event w7 (EvCdrUpdate chan);
          w9 = log_event w8 (EvCcParamsInit chan owner)
      in if \<not> ast_exists_extension sw (ch_context (chans w9 chan)) (ch_exten (chans w9 chan))
                (S_COR (number_valid (caller_id (ch_caller (chans w9 owner))))
                   (number_str (caller_id (ch_caller (chans w9 owner)))) None)
         then (ast_channel_unlock (fst (ast_mutex_unlock w9 p)) chan, - 1)
         else
           let w10 = (if ch_answered_elsewhere (chans w9 ast)
                      then upd_chan w9 chan (\<lambda>ch. ch\<lparr>ch_answered_elsewhere := True\<rparr>)
                      else w9);
               w11 = upd_chan w10 chan (\<lambda>ch. ch\<lparr>ch_varshead :=
                       ch_varshead ch @ ch_varshead (chans w10 owner)\<rparr>);
               w12 = log_event w11 (EvDatastoreInherit owner chan);
               reduced_dest = (case strrchr dest CHR ''/'' of
                                 Some i \<Rightarrow> take i dest
                               | None \<Rightarrow> dest);
               w13 = log_event w12 (EvSetCcInterfaces chan reduced_dest);
               res = ast_pbx_start sw w13 chan;
               w14 = log_event w13 (EvPbxStart chan);
               w15 = (if res = 0 then set_pvt_flag w14 p LOCAL_LAUNCHED_PBX else w14)
           in (ast_channel_unlock (fst (ast_mutex_unlock w15 p)) chan, res))"

definition local_call :: "switch \<Rightarrow> schedule \<Rightarrow> world \<Rightarrow> chan_ref \<Rightarrow> string \<Rightarrow> int \<Rightarrow> (world \<times> schedule \<times> int) result" where
  "local_call sw sched w ast dest timeout =
     (case ch_tech_pvt (chans w ast) of
        None \<Rightarrow> Returned (w, sched, - 1)
      | Some p \<Rightarrow>
          (case call_lock_dance sched w p of
             Fault \<Rightarrow> Fault
           | Stuck \<Rightarrow> Stuck
           | Returned (w1, sched1) \<Rightarrow>
               (case (pvt_chan (pvts w1 p), pvt_owner (pvts w1 p)) of
                  (Some chan, Some owner) \<Rightarrow>
                    (case call_locked sw w1 p ast chan owner dest of
                       (w2, res) \<Rightarrow> Returned (w2, sched1, res))
                | _ \<Rightarrow> Fault)))"

subsection \<open>\<open>local_hangup\<close>\<close>

text \<open>The two deadlock-avoidance loops of \<open>local_hangup\<close>.\<close>

fun hangup_lock_owner :: "schedule \<Rightarrow> world \<Rightarrow> pvt_ref \<Rightarrow> (world \<times> schedule) result" where
  "hangup_lock_owner sched w p =
     (case pvt_owner (pvts w p) of
        None \<Rightarrow> Returned (w, sched)
      | Some owner \<Rightarrow>
          (case ast_channel_trylock w owner of
             (w1, rc) \<Rightarrow>
               if rc = 0 then Returned (w1, sched)
               else
                 (case sched of
                    [] \<Rightarrow> Stuck
                  | e # rest \<Rightarrow>
                      let w2 = fst (ast_mutex_unlock w1 p);
                          w3 = (case pvt_chan (pvts w2 p) of
                                  Some c \<Rightarrow> ast_channel_unlock w2 c
                                | None \<Rightarrow> w2);
                          w4 = e w3;
                          w5 = (case pvt_chan (pvts w4 p) of
                                  Some c \<Rightarrow> ast_channel_lock w4 c
                                | None \<Rightarrow> w4)
                      in if freed w4 p then Fault
                         else hangup_lock_owner rest (ast_mutex_lock w5 p) p)))"

declare hangup_lock_owner.simps [simp del]

fun hangup_lock_chan :: "schedule \<Rightarrow> world \<Rightarrow> pvt_ref \<Rightarrow> (world \<times> schedule) result" where
  "hangup_lock_chan sched w p =
     (case pvt_chan (pvts w p) of
        None \<Rightarrow> Returned (w, sched)
      | Some chan \<Rightarrow>
          (case ast_channel_trylock w chan of
             (w1, rc) \<Rightarrow>
               if rc = 0 then Returned (w1, sched)
               else
                 (case sched of
                    [] \<Rightarrow> Stuck
                  | e # rest \<Rightarrow>
                      let w2 = fst (ast_mutex_unlock w1 p);
                          w3 = (case pvt_owner (pvts w2 p) of
                                  Some c \<Rightarrow> ast_channel_unlock w2 c
                                | None \<Rightarrow> w2);
                          w4 = e w3;
                          w5 = (case pvt_owner (pvts w4 p) of
                                  Some c \<Rightarrow> ast_channel_lock w4 c
                                | None \<Rightarrow> w4)
                      in if freed w4 p then Fault
                         else hangup_lock_chan rest (ast_mutex_lock w5 p) p)))"

declare hangup_lock_chan.simps [simp del]

text \<open>
  The first part of \<open>local_hangup\<close>, up to and including \<^verbatim>\<open>ast->tech_pvt = NULL\<close>:
  the endpoint \<open>ast\<close> is taken out of the private structure. On the outbound side
  \<^verbatim>\<open>p->chan\<close> is \<open>ast\<close>, which is where \<^verbatim>\<open>DIALSTATUS\<close> is read.
\<close>

definition hangup_detach :: "schedule \<Rightarrow> world \<Rightarrow> chan_ref \<Rightarrow> pvt_ref \<Rightarrow> (world \<times> schedule) result" where
  "hangup_detach sched w ast p =
     (let w1 = ast_mutex_lock w p;
          isoutbound = IS_OUTBOUND w1 ast p;
          w2 = (case pvt_chan (pvts w1 p) of
                  Some chan \<Rightarrow>
                    if ch_answered_elsewhere (chans w1 ast)
                    then upd_chan w1 chan (\<lambda>ch. ch\<lparr>ch_answered_elsewhere := True\<rparr>)
                    else w1
                | None \<Rightarrow> w1);
          r = (if isoutbound
               then
                 (case (pbx_builtin_getvar_helper w2 ast ''DIALSTATUS'', pvt_owner (pvts w2 p)) of
                    (Some status, Some owner0) \<Rightarrow>
                      (case hangup_lock_owner sched w2 p of
                         Fault \<Rightarrow> Fault
                       | Stuck \<Rightarrow> Stuck
                       | Returned (w3, sched3) \<Rightarrow>
                           Returned
                             (case pvt_owner (pvts w3 p) of
                                Some owner \<Rightarrow>
                                  ast_channel_unlock
                                    (pbx_builtin_setvar_helper w3 owner ''CHANLOCALSTATUS'' status)
                                    owner
                              | None \<Rightarrow> w3,
                              sched3))
                  | _ \<Rightarrow> Returned (w2, sched))
               else
                 (case hangup_lock_chan sched
                         (log_event w2 (EvModuleUserRemove (pvt_u_owner (pvts w2 p)))) p of
                    Fault \<Rightarrow> Fault
                  | Stuck \<Rightarrow> Stuck
                  | Returned (w3, sched3) \<Rightarrow>
                      let w4 = upd_pvt w3 p (\<lambda>pv. pv\<lparr>pvt_owner := None\<rparr>)
                      in Returned
                           (case pvt_chan (pvts w4 p) of
                              Some chan \<Rightarrow> ast_channel_unlock (ast_queue_hangup w4 chan) chan
                            | None \<Rightarrow> w4,
                            sched3)))
      in case r of
           Fault \<Rightarrow> Fault
         | Stuck \<Rightarrow> Stuck
         | Returned (w5, sched5) \<Rightarrow>
             let w6 = (if isoutbound
                       then log_event
                              (clear_pvt_flag (upd_pvt w5 p (\<lambda>pv. pv\<lparr>pvt_chan := None\<rparr>)) p
                                 LOCAL_LAUNCHED_PBX)
                              (EvModuleUserRemove (pvt_u_chan (pvts w5 p)))
                       else w5)
             in Returned (upd_chan w6 ast (\<lambda>ch. ch\<lparr>ch_tech_pvt := None\<rparr>), sched5))"

text \<open>
  The rest of \<open>local_hangup\<close>, from the test \<^verbatim>\<open>!p->owner && !p->chan\<close> on.
  \<^verbatim>\<open>ast_hangup(ochan)\<close> is recorded as an event: the switch then hangs that channel up.
\<close>

definition hangup_finish :: "schedule \<Rightarrow> world \<Rightarrow> pvt_ref \<Rightarrow> bool \<Rightarrow> ast_frame \<Rightarrow> (world \<times> schedule \<times> int) result" where
  "hangup_finish sched w p isoutbound f =
     (if pvt_owner (pvts w p) = None \<and> pvt_chan (pvts w p) = None
      then
        let glaredetect = test_pvt_flag w p LOCAL_GLARE_DETECT;
            w1 = (if glaredetect then set_pvt_flag w p LOCAL_CANCEL_QUEUE else w);
            w2 = w1\<lparr>locals := remove1 p (locals w1)\<rparr>;
            w3 = fst (ast_mutex_unlock w2 p);
            w4 = (if \<not> glaredetect then local_pvt_destroy w3 p else w3)
        in Returned (w4, sched, 0)
      else
        (case (if test_pvt_flag w p LOCAL_LAUNCHED_PBX then None else pvt_chan (pvts w p)) of
           Some ochan \<Rightarrow>
             Returned (log_event (fst (ast_mutex_unlock w p)) (EvHangup ochan), sched, 0)
         | None \<Rightarrow>
             (case unlock_if_ok p (local_queue_frame sched w p isoutbound (Some f) None True) of
                Fault \<Rightarrow> Fault
              | Stuck \<Rightarrow> Stuck
              | Returned (w1, sched1, res) \<Rightarrow> Returned (w1, sched1, 0))))"

text \<open>
  The hangup frame carries \<^verbatim>\<open>ast->hangupcause\<close>, an \<^verbatim>\<open>int\<close>, in the member
  \<^verbatim>\<open>uint32\<close> of its data: the conversion is modulo \<open>2 ^ 32\<close>.
\<close>

definition local_hangup :: "schedule \<Rightarrow> world \<Rightarrow> chan_ref \<Rightarrow> (world \<times> schedule \<times> int) result" where
  "local_hangup sched w ast =
     (case ch_tech_pvt (chans w ast) of
        None \<Rightarrow> Returned (w, sched, - 1)
      | Some p \<Rightarrow>
          let f = (null_frame AST_FRAME_CONTROL)
                    \<lparr>subclass_integer := SubControl AST_CONTROL_HANGUP,
                     data_ptr := DataUint32 (word_of_int (ch_hangupcause (chans w ast)))\<rparr>;
              isoutbound = IS_OUTBOUND w ast p
          in case hangup_detach sched w ast p of
               Fault \<Rightarrow> Fault
             | Stuck \<Rightarrow> Stuck
             | Returned (w1, sched1) \<Rightarrow> hangup_finish sched1 w1 p isoutbound f)"

subsection \<open>Example worlds\<close>

text \<open>
  A switch whose dialplan holds the extension \<open>1000@internal\<close> only, which resolves a
  bridge in one step and answers every option query with \<open>0\<close>.
\<close>

definition example_switch :: switch where
  "example_switch =
     \<lparr> AST_MAX_EXTENSION = 80, AST_MAX_CONTEXT = 80,
       ast_exists_extension = (\<lambda>c e cid. c = ''internal'' \<and> e = ''1000''),
       ast_bridged_channel = (\<lambda>w c. ch_bridge (chans w c)),
       ast_channel_queryoption = (\<lambda>w c opt. 0),
       ast_pbx_start = (\<lambda>w c. 0),
       ast_connected_line_build_data = (\<lambda>c. 0),
       ast_redirecting_build_data = (\<lambda>r. 0) \<rparr>"

definition party_id0 :: ast_party_id where
  "party_id0 = \<lparr> name_valid = False, number_valid = False, number_str = None,
                  subaddress_valid = False \<rparr>"

definition chan0 :: ast_channel where
  "chan0 =
     \<lparr> ch_tech_pvt = None, ch_bridge = None, ch_readq = [], ch_generator = False,
       ch_monitor = None, ch_audiohooks = None,
       ch_caller = \<lparr> caller_id = party_id0, caller_ani = party_id0, caller_ani2 = 0 \<rparr>,
       ch_connected = \<lparr> connected_id = party_id0, connected_ani = party_id0,
                        connected_ani2 = 0, connected_source = 0 \<rparr>,
       ch_redirecting = \<lparr> redirecting_from = party_id0, redirecting_to = party_id0,
                          redirecting_count = 0, redirecting_reason = 0 \<rparr>,
       ch_dialed = \<lparr> dialed_number_str = None, dialed_subaddress_valid = False \<rparr>,
       ch_state = AST_STATE_DOWN, ch_softhangup = False, ch_answered_elsewhere = False,
       ch_hangupcause = 0, ch_language = [], ch_accountcode = [], ch_musicclass = [],
       ch_context = ''internal'', ch_exten = ''1000'', ch_varshead = [], ch_lockcnt = 0,
       ch_busy = False \<rparr>"

definition pvt0 :: local_pvt where
  "pvt0 = fst (local_alloc_parse 80 80 ''1000@internal'' 0)"

text \<open>
  The pair \<open>0\<close> with the endpoints \<open>1\<close> (owner) and \<open>2\<close> (chan); \<open>2\<close> is bridged with
  the channel \<open>3\<close> of another driver. \<open>fl\<close> are the flags of the pair.
\<close>

definition pair_world :: "32 word \<Rightarrow> world" where
  "pair_world fl =
     \<lparr> chans = (\<lambda>c. chan0)
         (1 := chan0\<lparr>ch_tech_pvt := Some 0\<rparr>,
          2 := chan0\<lparr>ch_tech_pvt := Some 0, ch_bridge := Some 3\<rparr>,
          3 := chan0\<lparr>ch_bridge := Some 2\<rparr>),
       pvts = (\<lambda>p. pvt0)
         (0 := pvt0\<lparr>pvt_flags := fl, pvt_owner := Some 1, pvt_chan := Some 2\<rparr>),
       locals = [0], destroyed = [], events = [] \<rparr>"

text \<open>
  A step of a schedule: another thread runs \<open>local_hangup\<close> on the channel \<open>c\<close>, from
  beginning to end.
\<close>

definition hangup_elsewhere :: "chan_ref \<Rightarrow> world \<Rightarrow> world" where
  "hangup_elsewhere c w =
     (case local_hangup [] w c of
        Returned (w', sched, res) \<Rightarrow> w'
      | Fault \<Rightarrow> w
      | Stuck \<Rightarrow> w)"

text \<open>
  The pair of \<open>pair_world\<close> while another thread holds the lock of the owner \<open>1\<close>; and
  the same once the endpoint \<open>2\<close> is gone, with the mutex of the pair held.
\<close>

definition owner_busy_world :: world where
  "owner_busy_world = upd_chan (pair_world 0) 1 (\<lambda>ch. ch\<lparr>ch_busy := True\<rparr>)"


text \<open>
  The same pair while the owner \<open>1\<close> and the channel \<open>2\<close> are each locked by the thread
  that is about to hang it up.
\<close>

definition both_busy_world :: world where
  "both_busy_world = upd_chan owner_busy_world 2 (\<lambda>ch. ch\<lparr>ch_busy := True\<rparr>)"

text \<open>
  A step of a schedule: the thread of the channel \<open>2\<close> runs \<open>local_hangup\<close> on it; the
  forwarder of this hangup backs off, and during its back-off the thread of the owner
  \<open>1\<close> runs \<open>local_hangup\<close> on \<open>1\<close>.
\<close>

definition glare_elsewhere :: "world \<Rightarrow> world" where
  "glare_elsewhere w =
     (case local_hangup [hangup_elsewhere 1] w 2 of
        Returned (w', sched, res) \<Rightarrow> w'
      | Fault \<Rightarrow> w
      | Stuck \<Rightarrow> w)"


text \<open>
  The same pair while only the channel \<open>2\<close> is locked, by the thread that is about to
  hang it up; and a step of a schedule in which the channel \<open>2\<close> is hung up from
  beginning to end, then the owner \<open>1\<close>.
\<close>

definition chan_busy_world :: world where
  "chan_busy_world = upd_chan (pair_world 0) 2 (\<lambda>ch. ch\<lparr>ch_busy := True\<rparr>)"

definition hangups_elsewhere :: "world \<Rightarrow> world" where
  "hangups_elsewhere w = hangup_elsewhere 1 (hangup_elsewhere 2 w)"

text \<open>
  The world in which a forwarder called from an entry point sleeps during its first
  back-off: the entry point has taken the mutex, \<open>local_queue_frame\<close> has set
  \<open>LOCAL_GLARE_DETECT\<close>, found the partner locked and released the mutex.
\<close>

definition forwarder_asleep :: "world \<Rightarrow> pvt_ref \<Rightarrow> world" where
  "forwarder_asleep w p =
     fst (ast_mutex_unlock (set_pvt_flag (ast_mutex_lock w p) p LOCAL_GLARE_DETECT) p)"
section \<open>Basic facts\<close>

lemmas flag_defs = LOCAL_GLARE_DETECT_def LOCAL_CANCEL_QUEUE_def LOCAL_ALREADY_MASQED_def
  LOCAL_LAUNCHED_PBX_def LOCAL_NO_OPTIMIZATION_def LOCAL_BRIDGE_def LOCAL_MOH_PASSTHRU_def

lemma test_set_flag: "ast_test_flag (ast_set_flag fl f) g = (ast_test_flag fl g \<or> f AND g \<noteq> 0)"
  by (simp add: ast_test_flag_def ast_set_flag_def bit.conj_disj_distrib2 or_eq_0_iff)

lemma test_clear_flag: "ast_test_flag (ast_clear_flag fl f) g = ast_test_flag fl (g AND NOT f)"
  by (simp add: ast_test_flag_def ast_clear_flag_def ac_simps)

lemma test_flag_zero: "ast_test_flag 0 g = False"
  by (simp add: ast_test_flag_def)

lemma mutex_lock_unlock: "fst (ast_mutex_unlock (ast_mutex_lock w p) p) = w"
  by (simp add: ast_mutex_unlock_def ast_mutex_lock_def upd_pvt_def)

lemma mutex_lock_unlock_rc: "snd (ast_mutex_unlock (ast_mutex_lock w p) p) = 0"
  by (simp add: ast_mutex_unlock_def ast_mutex_lock_def upd_pvt_def)

lemma channel_lock_unlock: "ast_channel_unlock (ast_channel_lock w c) c = w"
  by (simp add: ast_channel_unlock_def ast_channel_lock_def upd_chan_def)

lemma mutex_lock_fields:
  "chans (ast_mutex_lock w p) = chans w"
  "locals (ast_mutex_lock w p) = locals w"
  "destroyed (ast_mutex_lock w p) = destroyed w"
  "events (ast_mutex_lock w p) = events w"
  "pvt_flags (pvts (ast_mutex_lock w p) q) = pvt_flags (pvts w q)"
  "pvt_owner (pvts (ast_mutex_lock w p) q) = pvt_owner (pvts w q)"
  "pvt_chan (pvts (ast_mutex_lock w p) q) = pvt_chan (pvts w q)"
  by (simp_all add: ast_mutex_lock_def upd_pvt_def)

lemma test_pvt_flag_lock: "test_pvt_flag (ast_mutex_lock w p) q f = test_pvt_flag w q f"
  by (simp add: test_pvt_flag_def mutex_lock_fields)

lemma IS_OUTBOUND_lock: "IS_OUTBOUND (ast_mutex_lock w p) a q = IS_OUTBOUND w a q"
  by (simp add: IS_OUTBOUND_def mutex_lock_fields)

lemma mutex_unlock_chan_lock:
  "fst (ast_mutex_unlock (ast_channel_lock (ast_mutex_lock w p) c) p) = ast_channel_lock w c"
  by (simp add: ast_mutex_unlock_def ast_mutex_lock_def ast_channel_lock_def upd_pvt_def upd_chan_def)

lemma mutex_unlock_chan_lock2:
  "fst (ast_mutex_unlock (ast_channel_lock (ast_channel_lock (ast_mutex_lock w p) c) b) p) =
     ast_channel_lock (ast_channel_lock w c) b"
  by (simp add: ast_mutex_unlock_def ast_mutex_lock_def ast_channel_lock_def upd_pvt_def upd_chan_def)

lemma channel_unlock2:
  "ast_channel_unlock (ast_channel_unlock (ast_channel_lock (ast_channel_lock w c) b) c) b = w"
  by (cases "b = c")
    (simp_all add: ast_channel_unlock_def ast_channel_lock_def upd_chan_def fun_upd_twist)

lemma chan_lock_busy: "ch_busy (chans (ast_channel_lock w c) b) = ch_busy (chans w b)"
  by (simp add: ast_channel_lock_def upd_chan_def)

lemma mutex_lock_busy: "ch_busy (chans (ast_mutex_lock w p) b) = ch_busy (chans w b)"
  by (simp add: mutex_lock_fields)

lemma deadlock_avoidance_lock:
  "DEADLOCK_AVOIDANCE e (ast_mutex_lock w p) p = ast_mutex_lock (e w) p"
  by (simp add: DEADLOCK_AVOIDANCE_def mutex_lock_unlock)

section \<open>Writes after the masquerade\<close>

lemma check_bridge_masqed:
  "test_pvt_flag w p LOCAL_ALREADY_MASQED \<Longrightarrow> check_bridge sw w p = w"
  by (simp add: check_bridge_def split: option.splits)

text \<open>
  Claim C1. Let \<open>ast\<close> be a channel whose \<open>tech_pvt\<close> is the pair \<open>p\<close> (either endpoint
  of the pair), and let \<open>LOCAL_ALREADY_MASQED\<close> be set in \<open>p\<close>. Then \<open>local_write\<close>
  returns \<open>0\<close>, consumes nothing of the schedule and leaves the world as it found it:
  no read queue receives a frame, and the flag is still set for the next call.
\<close>

theorem local_write_already_masqed:
  assumes "ch_tech_pvt (chans w ast) = Some p"
    and "test_pvt_flag w p LOCAL_ALREADY_MASQED"
  shows "local_write sw sched w ast f = Returned (w, sched, 0)"
proof -
  let ?w1 = "ast_mutex_lock w p"
  have m: "test_pvt_flag ?w1 p LOCAL_ALREADY_MASQED"
    using assms(2) by (simp add: test_pvt_flag_lock)
  then have cb: "check_bridge sw ?w1 p = ?w1"
    by (rule check_bridge_masqed)
  show ?thesis
    using assms(1) m cb by (simp add: local_write_def Let_def mutex_lock_unlock)
qed

theorem local_write_already_masqed_witness:
  "local_write example_switch [] (pair_world LOCAL_ALREADY_MASQED) 1 (Some (null_frame AST_FRAME_TEXT))
     = Returned (pair_world LOCAL_ALREADY_MASQED, [], 0) \<and>
   local_write example_switch [] (pair_world LOCAL_ALREADY_MASQED) 2 (Some (null_frame AST_FRAME_VOICE))
     = Returned (pair_world LOCAL_ALREADY_MASQED, [], 0)"
proof -
  have t1: "ch_tech_pvt (chans (pair_world LOCAL_ALREADY_MASQED) 1) = Some 0"
    by (simp add: pair_world_def)
  have t2: "ch_tech_pvt (chans (pair_world LOCAL_ALREADY_MASQED) 2) = Some 0"
    by (simp add: pair_world_def)
  have fl: "test_pvt_flag (pair_world LOCAL_ALREADY_MASQED) 0 LOCAL_ALREADY_MASQED"
    by (simp add: pair_world_def test_pvt_flag_def ast_test_flag_def LOCAL_ALREADY_MASQED_def)
  show ?thesis
    using local_write_already_masqed [OF t1 fl] local_write_already_masqed [OF t2 fl]
    by simp
qed

section \<open>Cutting strings at a separator\<close>

lemma strchr_None_iff: "strchr s c = None \<longleftrightarrow> c \<notin> set s"
  by (induction s) auto

lemma strchr_eq:
  "strchr s c = (if c \<in> set s then Some (length (takeWhile (\<lambda>x. x \<noteq> c) s)) else None)"
  by (induction s) auto

lemma take_length_takeWhile: "take (length (takeWhile P s)) s = takeWhile P s"
  by (induction s) auto

lemma drop_length_takeWhile: "drop (length (takeWhile P s)) s = dropWhile P s"
  by (induction s) auto

lemma takeWhile_all: "c \<notin> set s \<Longrightarrow> takeWhile (\<lambda>x. x \<noteq> c) s = s"
  by (induction s) auto

text \<open>The text before the first \<open>c\<close>, and the text after it (when there is one).\<close>

lemma strchr_take: "(case strchr s c of Some i \<Rightarrow> take i s | None \<Rightarrow> s) = takeWhile (\<lambda>x. x \<noteq> c) s"
  by (simp add: strchr_eq take_length_takeWhile takeWhile_all)

lemma before_first:
  "c \<notin> set a \<Longrightarrow> takeWhile (\<lambda>x. x \<noteq> c) (a @ c # b) = a"
  by (induction a) auto

lemma after_first:
  "c \<notin> set a \<Longrightarrow> drop (Suc (length a)) (a @ c # b) = b"
  by simp

lemma split_first:
  "c \<in> set s \<Longrightarrow> s = takeWhile (\<lambda>x. x \<noteq> c) s @ c # drop (Suc (length (takeWhile (\<lambda>x. x \<noteq> c) s))) s"
  by (induction s) auto

lemma decomp_iff:
  "(\<exists>ex os. s = ex @ c # os \<and> c \<notin> set ex \<and> P os) \<longleftrightarrow>
   (c \<in> set s \<and> P (drop (Suc (length (takeWhile (\<lambda>x. x \<noteq> c) s))) s))"
proof
  assume "\<exists>ex os. s = ex @ c # os \<and> c \<notin> set ex \<and> P os"
  then obtain ex os where s: "s = ex @ c # os" and ex: "c \<notin> set ex" and P: "P os"
    by blast
  from s ex P show "c \<in> set s \<and> P (drop (Suc (length (takeWhile (\<lambda>x. x \<noteq> c) s))) s)"
    by (simp add: before_first)
next
  assume a: "c \<in> set s \<and> P (drop (Suc (length (takeWhile (\<lambda>x. x \<noteq> c) s))) s)"
  let ?ex = "takeWhile (\<lambda>x. x \<noteq> c) s"
  let ?os = "drop (Suc (length ?ex)) s"
  have "s = ?ex @ c # ?os" using a split_first by fast
  moreover have "c \<notin> set ?ex" by (auto dest: set_takeWhileD)
  ultimately show "\<exists>ex os. s = ex @ c # os \<and> c \<notin> set ex \<and> P os"
    using a by blast
qed

text \<open>\<open>local_alloc_parse\<close> in terms of the text before and after the separators.\<close>

lemma alloc_has:
  "(case (case strchr buf CHR ''/'' of Some i \<Rightarrow> Some (drop (Suc i) buf) | None \<Rightarrow> None) of
      Some os \<Rightarrow> strchr os c \<noteq> None | None \<Rightarrow> False)
   \<longleftrightarrow> (\<exists>ex os. buf = ex @ CHR ''/'' # os \<and> CHR ''/'' \<notin> set ex \<and> c \<in> set os)"
  by (simp add: decomp_iff [where P = "\<lambda>os. c \<in> set os"] strchr_eq strchr_None_iff)

lemma alloc_parse_unfold:
  "local_alloc_parse max_exten max_context data format =
     (let buf = ast_copy_string data max_exten;
          head = takeWhile (\<lambda>x. x \<noteq> CHR ''/'') buf;
          has = (\<lambda>c. \<exists>ex os. buf = ex @ CHR ''/'' # os \<and> CHR ''/'' \<notin> set ex \<and> c \<in> set os);
          fl0 = (if has CHR ''n'' then ast_set_flag 0 LOCAL_NO_OPTIMIZATION else 0);
          fl1 = (if has CHR ''b'' then ast_set_flag fl0 LOCAL_BRIDGE else fl0);
          fl2 = (if has CHR ''m'' then ast_set_flag fl1 LOCAL_MOH_PASSTHRU else fl1)
      in (\<lparr> pvt_lock = 0, pvt_busy = False, pvt_flags = fl2,
            pvt_context = ast_copy_string
              (if CHR ''@'' \<in> set head
               then drop (Suc (length (takeWhile (\<lambda>x. x \<noteq> CHR ''@'') head))) head
               else ''default'') max_context,
            pvt_exten = takeWhile (\<lambda>x. x \<noteq> CHR ''@'') head,
            pvt_reqformat = format,
            pvt_jb_conf = (if has CHR ''j'' \<and> has CHR ''n''
                           then g_jb_conf\<lparr>jb_flags := ast_set_flag (jb_flags g_jb_conf) AST_JB_ENABLED\<rparr>
                           else g_jb_conf),
            pvt_owner = None, pvt_chan = None, pvt_u_owner = None, pvt_u_chan = None \<rparr>,
          has CHR ''j'' \<and> \<not> has CHR ''n''))"
proof -
  let ?buf = "ast_copy_string data max_exten"
  have head: "fst (case strchr ?buf CHR ''/'' of
                 Some i \<Rightarrow> (take i ?buf, Some (drop (Suc i) ?buf))
               | None \<Rightarrow> (?buf, None)) = takeWhile (\<lambda>x. x \<noteq> CHR ''/'') ?buf"
    by (simp add: strchr_eq take_length_takeWhile takeWhile_all)
  have opts: "snd (case strchr ?buf CHR ''/'' of
                 Some i \<Rightarrow> (take i ?buf, Some (drop (Suc i) ?buf))
               | None \<Rightarrow> (?buf, None)) =
              (case strchr ?buf CHR ''/'' of Some i \<Rightarrow> Some (drop (Suc i) ?buf) | None \<Rightarrow> None)"
    by (simp split: option.splits)
  show ?thesis
    unfolding local_alloc_parse_def Let_def case_prod_beta head opts alloc_has
    by (auto simp add: strchr_eq take_length_takeWhile takeWhile_all test_set_flag test_flag_zero
        flag_defs)
qed

section \<open>The guard of the optimisation\<close>

lemma check_bridge_no_optimization:
  "test_pvt_flag w p LOCAL_NO_OPTIMIZATION \<Longrightarrow> check_bridge sw w p = w"
  by (simp add: check_bridge_def split: option.splits)

lemma check_bridge_no_chan:
  "pvt_chan (pvts w p) = None \<Longrightarrow> check_bridge sw w p = w"
  by (simp add: check_bridge_def)

lemma check_bridge_no_owner:
  "pvt_owner (pvts w p) = None \<Longrightarrow> check_bridge sw w p = w"
  by (simp add: check_bridge_def split: option.splits)

lemma check_bridge_indirect:
  "pvt_chan (pvts w p) = Some chan \<Longrightarrow>
   ch_bridge (chans w chan) \<noteq> ast_bridged_channel sw w chan \<Longrightarrow> check_bridge sw w p = w"
  by (simp add: check_bridge_def split: option.splits)

lemma check_bridge_pending:
  "pvt_owner (pvts w p) = Some owner \<Longrightarrow>
   ch_readq (chans w owner) \<noteq> [] \<Longrightarrow> check_bridge sw w p = w"
  by (simp add: check_bridge_def split: option.splits)

text \<open>
  Claim C2. Whenever \<open>check_bridge\<close> changes anything at all in the world (an event
  such as the masquerade, a swapped field, a flag, even a lock count), then
  \<open>LOCAL_ALREADY_MASQED\<close> and \<open>LOCAL_NO_OPTIMIZATION\<close> were clear, both endpoints were
  there, the one-step bridge partner of \<open>chan\<close> was the one the switch resolves, and the
  read queue of \<open>owner\<close> was empty.
\<close>

theorem check_bridge_guard:
  assumes "check_bridge sw w p \<noteq> w"
  shows "\<not> test_pvt_flag w p LOCAL_ALREADY_MASQED \<and>
         \<not> test_pvt_flag w p LOCAL_NO_OPTIMIZATION \<and>
         (\<exists>chan owner. pvt_chan (pvts w p) = Some chan \<and> pvt_owner (pvts w p) = Some owner \<and>
            ch_bridge (chans w chan) = ast_bridged_channel sw w chan \<and>
            ch_readq (chans w owner) = [])"
proof -
  from assms have m: "\<not> test_pvt_flag w p LOCAL_ALREADY_MASQED"
    using check_bridge_masqed by blast
  from assms have n: "\<not> test_pvt_flag w p LOCAL_NO_OPTIMIZATION"
    using check_bridge_no_optimization by blast
  from assms obtain chan where c: "pvt_chan (pvts w p) = Some chan"
    using check_bridge_no_chan by (cases "pvt_chan (pvts w p)") blast+
  from assms obtain owner where ow: "pvt_owner (pvts w p) = Some owner"
    using check_bridge_no_owner by (cases "pvt_owner (pvts w p)") blast+
  from assms c have b: "ch_bridge (chans w chan) = ast_bridged_channel sw w chan"
    using check_bridge_indirect by blast
  from assms ow have q: "ch_readq (chans w owner) = []"
    using check_bridge_pending by blast
  from m n c ow b q show ?thesis by blast
qed


lemma check_bridge_example_events:
  "events (check_bridge example_switch (pair_world 0) 0) = [EvGroupUpdate 2 1, EvMasquerade 1 3]"
  by (simp add: check_bridge_def pair_world_def example_switch_def chan0_def party_id0_def
      test_pvt_flag_def ast_test_flag_def ast_channel_trylock_def ast_channel_lock_def
      ast_channel_unlock_def ast_check_hangup_def check_bridge_masquerade_def swap_monitor_def
      swap_audiohooks_def swap_caller_def swap_redirecting_def swap_dialed_def
      caller_is_set_def redirecting_is_set_def dialed_is_set_def log_event_def
      set_pvt_flag_def upd_chan_def upd_pvt_def Let_def)

theorem check_bridge_guard_witness:
  "check_bridge example_switch (pair_world 0) 0 \<noteq> pair_world 0 \<and>
   \<not> test_pvt_flag (pair_world 0) 0 LOCAL_ALREADY_MASQED \<and>
   \<not> test_pvt_flag (pair_world 0) 0 LOCAL_NO_OPTIMIZATION \<and>
   pvt_chan (pvts (pair_world 0) 0) = Some 2 \<and>
   pvt_owner (pvts (pair_world 0) 0) = Some 1 \<and>
   ch_bridge (chans (pair_world 0) 2) = ast_bridged_channel example_switch (pair_world 0) 2 \<and>
   ch_readq (chans (pair_world 0) 1) = []"
proof -
  have "events (pair_world 0) = []" by (simp add: pair_world_def)
  then have ne: "check_bridge example_switch (pair_world 0) 0 \<noteq> pair_world 0"
    using check_bridge_example_events by auto
  have c: "pvt_chan (pvts (pair_world 0) 0) = Some 2 \<and> pvt_owner (pvts (pair_world 0) 0) = Some 1"
    by (simp add: pair_world_def)
  from check_bridge_guard [OF ne] c ne show ?thesis by auto
qed

section \<open>The forwarder\<close>

lemma queue_frame_deliver_cancelled:
  "test_pvt_flag w p LOCAL_CANCEL_QUEUE \<Longrightarrow>
   queue_frame_deliver w p f other =
     Returned (case other of
                 Some oth \<Rightarrow> ast_channel_unlock (local_pvt_destroy (fst (ast_mutex_unlock w p)) p) oth
               | None \<Rightarrow> local_pvt_destroy (fst (ast_mutex_unlock w p)) p, - 1)"
  by (simp add: queue_frame_deliver_def Let_def)


lemma destroy_fields:
  "chans (local_pvt_destroy w p) = chans w"
  "pvts (local_pvt_destroy w p) = pvts w"
  "locals (local_pvt_destroy w p) = locals w"
  "events (local_pvt_destroy w p) = events w"
  "destroyed (local_pvt_destroy w p) = destroyed w @ [p]"
  by (simp_all add: local_pvt_destroy_def)


lemma lock_both_none:
  "queue_frame_lock_both sched w p isoutbound us us_locked None = Returned (w, sched, None, 0)"
  by (subst queue_frame_lock_both.simps) simp

lemma lock_both_free:
  "\<not> ch_busy (chans w oth) \<Longrightarrow>
   queue_frame_lock_both sched w p isoutbound us us_locked (Some oth) =
     Returned (ast_channel_lock w oth, sched, Some oth, 0)"
  by (subst queue_frame_lock_both.simps) (simp add: ast_channel_trylock_def)

lemma mutex_unlock_held: "pvt_lock (pvts w p) \<noteq> 0 \<Longrightarrow> snd (ast_mutex_unlock w p) = 0"
  by (simp add: ast_mutex_unlock_def)


lemma lock_both_busy:
  "ch_busy (chans w oth) \<Longrightarrow> pvt_lock (pvts w p) \<noteq> 0 \<Longrightarrow>
   queue_frame_lock_both (e # rest) w p isoutbound us us_locked (Some oth) =
     (let w3 = (case us of
                  Some u \<Rightarrow>
                    if us_locked
                    then ast_mutex_lock (CHANNEL_DEADLOCK_AVOIDANCE e (fst (ast_mutex_unlock w p)) u) p
                    else ast_mutex_lock (e (fst (ast_mutex_unlock w p))) p
                | None \<Rightarrow> ast_mutex_lock (e (fst (ast_mutex_unlock w p))) p)
      in if freed w3 p then Fault
         else queue_frame_lock_both rest w3 p isoutbound us us_locked
                (if isoutbound then pvt_owner (pvts w3 p) else pvt_chan (pvts w3 p)))"
  by (subst queue_frame_lock_both.simps)
     (simp add: ast_channel_trylock_def case_prod_beta mutex_unlock_held Let_def)



lemma freed_fields:
  "freed (ast_channel_lock w c) p = freed w p"
  "freed (ast_channel_unlock w c) p = freed w p"
  "freed (ast_mutex_lock w q) p = freed w p"
  "freed (fst (ast_mutex_unlock w q)) p = freed w p"
  "freed (set_pvt_flag w q f) p = freed w p"
  "freed (clear_pvt_flag w q f) p = freed w p"
  by (simp_all add: freed_def ast_channel_lock_def ast_channel_unlock_def ast_mutex_lock_def
      ast_mutex_unlock_def set_pvt_flag_def clear_pvt_flag_def upd_chan_def upd_pvt_def)


section \<open>The device state\<close>

lemma devicestate_parse_decomp:
  assumes "data = exten @ CHR ''@'' # rest" and "CHR ''@'' \<notin> set exten"
  shows "devicestate_parse data = Some (exten, takeWhile (\<lambda>x. x \<noteq> CHR ''/'') rest)"
  using assms
  by (simp add: devicestate_parse_def strchr_eq before_first takeWhile_all take_length_takeWhile)

lemma devicestate_parse_no_at:
  "CHR ''@'' \<notin> set data \<Longrightarrow> devicestate_parse data = None"
  by (simp add: devicestate_parse_def strchr_eq)

lemma devicestate_traverse_iff:
  "devicestate_traverse w exten ctx ls =
     (if \<exists>lp\<in>set ls. pvt_exten (pvts w lp) = exten \<and> pvt_context (pvts w lp) = ctx \<and>
                      pvt_owner (pvts w lp) \<noteq> None
      then AST_DEVICE_INUSE else AST_DEVICE_NOT_INUSE)"
  by (induction ls) auto

text \<open>
  Claim C5. \<open>local_devicestate\<close> returns \<open>AST_DEVICE_INVALID\<close> when its argument holds
  no \<open>@\<close>. Otherwise, with \<open>exten\<close> the text before the first \<open>@\<close> and \<open>ctx\<close> the
  text after it up to the next \<open>/\<close>, it returns \<open>AST_DEVICE_INVALID\<close> when the dialplan
  has no such extension, else \<open>AST_DEVICE_INUSE\<close> if and only if some private structure in
  \<^verbatim>\<open>locals\<close> has this extension, this context and an owner, and
  \<open>AST_DEVICE_NOT_INUSE\<close> otherwise.
\<close>

theorem local_devicestate_spec:
  "(CHR ''@'' \<notin> set data \<longrightarrow> local_devicestate sw w data = AST_DEVICE_INVALID) \<and>
   (data = exten @ CHR ''@'' # rest \<and> CHR ''@'' \<notin> set exten \<and>
    ctx = takeWhile (\<lambda>x. x \<noteq> CHR ''/'') rest \<longrightarrow>
      local_devicestate sw w data =
        (if \<not> ast_exists_extension sw ctx exten None then AST_DEVICE_INVALID
         else if \<exists>lp\<in>set (locals w). pvt_exten (pvts w lp) = exten \<and>
                   pvt_context (pvts w lp) = ctx \<and> pvt_owner (pvts w lp) \<noteq> None
              then AST_DEVICE_INUSE
              else AST_DEVICE_NOT_INUSE))"
proof (intro conjI impI)
  assume "CHR ''@'' \<notin> set data"
  then show "local_devicestate sw w data = AST_DEVICE_INVALID"
    by (simp add: local_devicestate_def devicestate_parse_no_at)
next
  assume a: "data = exten @ CHR ''@'' # rest \<and> CHR ''@'' \<notin> set exten \<and>
    ctx = takeWhile (\<lambda>x. x \<noteq> CHR ''/'') rest"
  then have p: "devicestate_parse data = Some (exten, ctx)"
    by (simp add: devicestate_parse_decomp)
  show "local_devicestate sw w data =
        (if \<not> ast_exists_extension sw ctx exten None then AST_DEVICE_INVALID
         else if \<exists>lp\<in>set (locals w). pvt_exten (pvts w lp) = exten \<and>
                   pvt_context (pvts w lp) = ctx \<and> pvt_owner (pvts w lp) \<noteq> None
              then AST_DEVICE_INUSE
              else AST_DEVICE_NOT_INUSE)"
    by (simp add: local_devicestate_def p devicestate_traverse_iff)
qed

theorem local_devicestate_spec_witness:
  "local_devicestate example_switch (pair_world 0) ''1000'' = AST_DEVICE_INVALID \<and>
   local_devicestate example_switch (pair_world 0) ''2000@internal'' = AST_DEVICE_INVALID \<and>
   local_devicestate example_switch (pair_world 0) ''1000@internal/n'' = AST_DEVICE_INUSE \<and>
   local_devicestate example_switch ((pair_world 0)\<lparr>locals := []\<rparr>) ''1000@internal'' = AST_DEVICE_NOT_INUSE"
proof -
  have pv: "pvt_exten pvt0 = ''1000'' \<and> pvt_context pvt0 = ''internal''"
    by (simp add: pvt0_def local_alloc_parse_def ast_copy_string_def Let_def)
  have 1: "local_devicestate example_switch (pair_world 0) ''1000'' = AST_DEVICE_INVALID"
    using local_devicestate_spec [of "''1000''" example_switch "pair_world 0"] by simp
  have 2: "local_devicestate example_switch (pair_world 0) ''2000@internal'' = AST_DEVICE_INVALID"
    using local_devicestate_spec [of "''2000@internal''" example_switch "pair_world 0"
        "''2000''" "''internal''" "''internal''"]
    by (simp add: example_switch_def)
  have 3: "local_devicestate example_switch (pair_world 0) ''1000@internal/n'' = AST_DEVICE_INUSE"
    using local_devicestate_spec [of "''1000@internal/n''" example_switch "pair_world 0"
        "''1000''" "''internal/n''" "''internal''"] pv
    by (simp add: example_switch_def pair_world_def)
  have 4: "local_devicestate example_switch ((pair_world 0)\<lparr>locals := []\<rparr>) ''1000@internal'' = AST_DEVICE_NOT_INUSE"
    using local_devicestate_spec [of "''1000@internal''" example_switch "(pair_world 0)\<lparr>locals := []\<rparr>"
        "''1000''" "''internal''" "''internal''"]
    by (simp add: example_switch_def)
  from 1 2 3 4 show ?thesis by simp
qed

section \<open>The two parsers of the destination string\<close>

lemma takeWhile_append_notin:
  "c \<notin> set a \<Longrightarrow> takeWhile (\<lambda>x. x \<noteq> c) (a @ b) = a @ takeWhile (\<lambda>x. x \<noteq> c) b"
  by (induction a) auto

lemma takeWhile_take_prefix:
  "length (takeWhile P s) \<le> n \<Longrightarrow> takeWhile P (take n s) = takeWhile P s"
  by (induction s arbitrary: n) (auto simp: take_Cons split: nat.splits)

text \<open>
  The extension that \<open>local_alloc\<close> cuts out never holds a \<open>/\<close>.
\<close>

lemma alloc_exten_no_slash:
  "CHR ''/'' \<notin> set (pvt_exten (fst (local_alloc_parse max_exten max_context data format)))"
proof -
  have "CHR ''/'' \<notin> set (takeWhile (\<lambda>x. x \<noteq> CHR ''/'') s)" for s
    by (auto dest: set_takeWhileD)
  then show ?thesis
    unfolding alloc_parse_unfold Let_def
    by (auto dest: set_takeWhileD)
qed

text \<open>
  Claim C6, as amended. The two parsers do not agree on every string (see the
  counterexample below). Let the string hold an \<open>@\<close>, let \<open>exten\<close> be the text before the
  first \<open>@\<close> and \<open>ctx\<close> the text between that \<open>@\<close> and the next \<open>/\<close> (or the end). When
  \<open>exten\<close> holds no \<open>/\<close>, \<open>exten@ctx\<close> fits the buffer \<^verbatim>\<open>exten\<close> and \<open>ctx\<close> fits the
  buffer \<^verbatim>\<open>context\<close>, \<open>local_devicestate\<close> and \<open>local_alloc\<close> cut out the same extension
  and the same context, whatever follows. When \<open>exten\<close> holds a \<open>/\<close>, the two extensions
  differ. When the string holds no \<open>@\<close>, \<open>local_devicestate\<close> cuts out nothing, whereas
  \<open>local_alloc\<close> takes the context \<open>default\<close> (the buffer \<^verbatim>\<open>context\<close> is taken to hold
  that word).
\<close>

theorem devicestate_parse_agrees_with_alloc:
  "(data = exten @ CHR ''@'' # rest \<and> CHR ''@'' \<notin> set exten \<and> CHR ''/'' \<notin> set exten \<and>
    length exten + 1 + length (takeWhile (\<lambda>x. x \<noteq> CHR ''/'') rest) < max_exten \<and>
    length (takeWhile (\<lambda>x. x \<noteq> CHR ''/'') rest) < max_context \<longrightarrow>
      devicestate_parse data = Some (exten, takeWhile (\<lambda>x. x \<noteq> CHR ''/'') rest) \<and>
      devicestate_parse data =
        Some (pvt_exten (fst (local_alloc_parse max_exten max_context data format)),
              pvt_context (fst (local_alloc_parse max_exten max_context data format)))) \<and>
   (data = exten @ CHR ''@'' # rest \<and> CHR ''@'' \<notin> set exten \<and> CHR ''/'' \<in> set exten \<longrightarrow>
      (\<exists>ctx. devicestate_parse data = Some (exten, ctx)) \<and>
      pvt_exten (fst (local_alloc_parse max_exten max_context data format)) \<noteq> exten) \<and>
   (CHR ''@'' \<notin> set data \<longrightarrow>
      devicestate_parse data = None \<and>
      (7 < max_context \<longrightarrow>
         pvt_context (fst (local_alloc_parse max_exten max_context data format)) = ''default''))"
proof (intro conjI impI)
  let ?ctx = "takeWhile (\<lambda>x. x \<noteq> CHR ''/'') rest"
  assume h: "data = exten @ CHR ''@'' # rest \<and> CHR ''@'' \<notin> set exten \<and> CHR ''/'' \<notin> set exten \<and>
    length exten + 1 + length ?ctx < max_exten \<and> length ?ctx < max_context"
  have hd0: "takeWhile (\<lambda>x. x \<noteq> CHR ''/'') data = exten @ CHR ''@'' # ?ctx"
    using h by (simp add: takeWhile_append_notin)
  have "length (takeWhile (\<lambda>x. x \<noteq> CHR ''/'') data) \<le> max_exten - 1"
    unfolding hd0 using h by auto
  then have head: "takeWhile (\<lambda>x. x \<noteq> CHR ''/'') (ast_copy_string data max_exten) = exten @ CHR ''@'' # ?ctx"
    unfolding ast_copy_string_def by (simp add: takeWhile_take_prefix hd0)
  have ex: "takeWhile (\<lambda>x. x \<noteq> CHR ''@'') (exten @ CHR ''@'' # ?ctx) = exten"
    using h by (simp add: before_first)
  have cp: "ast_copy_string ?ctx max_context = ?ctx"
    using h by (auto simp: ast_copy_string_def)
  show d: "devicestate_parse data = Some (exten, ?ctx)"
    using h
    by (simp add: devicestate_parse_def strchr_eq before_first takeWhile_all take_length_takeWhile)
  show "devicestate_parse data =
        Some (pvt_exten (fst (local_alloc_parse max_exten max_context data format)),
              pvt_context (fst (local_alloc_parse max_exten max_context data format)))"
    unfolding d alloc_parse_unfold Let_def head ex
    by (simp add: cp)
next
  assume h: "data = exten @ CHR ''@'' # rest \<and> CHR ''@'' \<notin> set exten \<and> CHR ''/'' \<in> set exten"
  then have "devicestate_parse data = Some (exten, takeWhile (\<lambda>x. x \<noteq> CHR ''/'') rest)"
    by (simp add: devicestate_parse_def strchr_eq before_first takeWhile_all take_length_takeWhile)
  then show "\<exists>ctx. devicestate_parse data = Some (exten, ctx)" by blast
next
  assume h: "data = exten @ CHR ''@'' # rest \<and> CHR ''@'' \<notin> set exten \<and> CHR ''/'' \<in> set exten"
  show "pvt_exten (fst (local_alloc_parse max_exten max_context data format)) \<noteq> exten"
  proof
    assume "pvt_exten (fst (local_alloc_parse max_exten max_context data format)) = exten"
    with alloc_exten_no_slash [of max_exten max_context data format]
    have "CHR ''/'' \<notin> set exten" by simp
    with h show False by simp
  qed
next
  assume "CHR ''@'' \<notin> set data"
  then show "devicestate_parse data = None"
    by (simp add: devicestate_parse_def strchr_eq)
next
  assume a: "CHR ''@'' \<notin> set data" and m: "7 < max_context"
  have "CHR ''@'' \<notin> set (takeWhile (\<lambda>x. x \<noteq> CHR ''/'') (ast_copy_string data max_exten))"
    using a by (auto simp: ast_copy_string_def dest: set_takeWhileD in_set_takeD)
  then show "pvt_context (fst (local_alloc_parse max_exten max_context data format)) = ''default''"
    unfolding alloc_parse_unfold Let_def using m by (simp add: ast_copy_string_def)
qed

text \<open>
  The two parsers agree on \<open>1000@internal/n\<close>, and on a string longer than the buffer
  \<^verbatim>\<open>exten\<close> whose extension and context fit it; they differ on \<open>1000/n@internal\<close> and
  on \<open>1000\<close>.
\<close>

theorem devicestate_parse_agrees_with_alloc_witness:
  "devicestate_parse ''1000@internal/n'' = Some (''1000'', ''internal'') \<and>
   devicestate_parse ''1000@internal/n'' =
     Some (pvt_exten (fst (local_alloc_parse 80 80 ''1000@internal/n'' 0)),
           pvt_context (fst (local_alloc_parse 80 80 ''1000@internal/n'' 0))) \<and>
   devicestate_parse (''1000@internal/'' @ replicate 70 CHR ''n'') =
     Some (pvt_exten (fst (local_alloc_parse 80 80 (''1000@internal/'' @ replicate 70 CHR ''n'') 0)),
           pvt_context (fst (local_alloc_parse 80 80 (''1000@internal/'' @ replicate 70 CHR ''n'') 0))) \<and>
   (\<exists>ctx. devicestate_parse ''1000/n@internal'' = Some (''1000/n'', ctx)) \<and>
   pvt_exten (fst (local_alloc_parse 80 80 ''1000/n@internal'' 0)) \<noteq> ''1000/n'' \<and>
   devicestate_parse ''1000'' = None \<and>
   pvt_context (fst (local_alloc_parse 80 80 ''1000'' 0)) = ''default''"
proof -
  have a: "''1000@internal/n'' = ''1000'' @ CHR ''@'' # ''internal/n'' \<and>
      CHR ''@'' \<notin> set ''1000'' \<and> CHR ''/'' \<notin> set ''1000'' \<and>
      length ''1000'' + 1 + length (takeWhile (\<lambda>x. x \<noteq> CHR ''/'') ''internal/n'') < (80::nat) \<and>
      length (takeWhile (\<lambda>x. x \<noteq> CHR ''/'') ''internal/n'') < (80::nat)"
    by simp
  have tw: "takeWhile (\<lambda>x. x \<noteq> CHR ''/'') ''internal/n'' = ''internal''" by simp
  note t1 = devicestate_parse_agrees_with_alloc
    [of "''1000@internal/n''" "''1000''" "''internal/n''" 80 80 0, THEN conjunct1, rule_format, OF a]
  have b: "''1000@internal/'' @ replicate 70 CHR ''n''
        = ''1000'' @ CHR ''@'' # (''internal/'' @ replicate 70 CHR ''n'') \<and>
      CHR ''@'' \<notin> set ''1000'' \<and> CHR ''/'' \<notin> set ''1000'' \<and>
      length ''1000'' + 1 +
        length (takeWhile (\<lambda>x. x \<noteq> CHR ''/'') (''internal/'' @ replicate 70 CHR ''n'')) < (80::nat) \<and>
      length (takeWhile (\<lambda>x. x \<noteq> CHR ''/'') (''internal/'' @ replicate 70 CHR ''n'')) < (80::nat)"
    by simp
  note t2 = devicestate_parse_agrees_with_alloc
    [of "''1000@internal/'' @ replicate 70 CHR ''n''" "''1000''"
        "''internal/'' @ replicate 70 CHR ''n''" 80 80 0, THEN conjunct1, rule_format, OF b]
  have c: "''1000/n@internal'' = ''1000/n'' @ CHR ''@'' # ''internal'' \<and>
      CHR ''@'' \<notin> set ''1000/n'' \<and> CHR ''/'' \<in> set ''1000/n''"
    by simp
  note t3 = devicestate_parse_agrees_with_alloc
    [of "''1000/n@internal''" "''1000/n''" "''internal''" 80 80 0,
      THEN conjunct2, THEN conjunct1, rule_format, OF c]
  have d: "CHR ''@'' \<notin> set ''1000''" by simp
  note t4 = devicestate_parse_agrees_with_alloc
    [of "''1000''" "[]" "[]" 80 80 0, THEN conjunct2, THEN conjunct2, rule_format, OF d]
  have e: "(7::nat) < 80" by simp
  from t1 have 1: "devicestate_parse ''1000@internal/n'' = Some (''1000'', ''internal'')"
    unfolding tw by (rule conjunct1)
  from t1 have 2: "devicestate_parse ''1000@internal/n'' =
     Some (pvt_exten (fst (local_alloc_parse 80 80 ''1000@internal/n'' 0)),
           pvt_context (fst (local_alloc_parse 80 80 ''1000@internal/n'' 0)))"
    by (rule conjunct2)
  note 3 = t2 [THEN conjunct2]
  note 4 = t3 [THEN conjunct1]
  note 5 = t3 [THEN conjunct2]
  note 6 = t4 [THEN conjunct1]
  note 7 = t4 [THEN conjunct2, rule_format, OF e]
  from 1 2 3 4 5 6 7 show ?thesis by (intro conjI)
qed

text \<open>
  Claim C6 as stated fails at \<open>1000/n@internal\<close>: \<open>local_devicestate\<close> takes the
  extension \<open>1000/n\<close> in the context \<open>internal\<close>, whereas \<open>local_alloc\<close> cuts the
  options off first and takes the extension \<open>1000\<close> in the context \<open>default\<close>. It
  also fails when the extension does not fit the buffer \<^verbatim>\<open>exten\<close>, which only
  \<open>local_alloc\<close> copies the string into: of eighty \<open>1\<close> followed by \<open>@internal\<close>,
  \<open>local_alloc\<close> keeps seventy-nine \<open>1\<close> and the context \<open>default\<close>.
\<close>

theorem devicestate_parse_alloc_counterexample:
  "devicestate_parse ''1000/n@internal'' = Some (''1000/n'', ''internal'') \<and>
   pvt_exten (fst (local_alloc_parse 80 80 ''1000/n@internal'' 0)) = ''1000'' \<and>
   pvt_context (fst (local_alloc_parse 80 80 ''1000/n@internal'' 0)) = ''default'' \<and>
   devicestate_parse (replicate 80 CHR ''1'' @ ''@internal'')
     = Some (replicate 80 CHR ''1'', ''internal'') \<and>
   pvt_exten (fst (local_alloc_parse 80 80 (replicate 80 CHR ''1'' @ ''@internal'') 0))
     = replicate 79 CHR ''1'' \<and>
   pvt_context (fst (local_alloc_parse 80 80 (replicate 80 CHR ''1'' @ ''@internal'') 0))
     = ''default''"
  by code_simp

section \<open>The options of the destination string\<close>

lemma set_takeWhile_subset: "x \<in> set (takeWhile P s) \<Longrightarrow> x \<in> set s"
  by (rule set_takeWhileD [THEN conjunct1])

text \<open>
  Claim C7, as amended. The shape of the destination string is \<open>EXTEN[@CONTEXT][/OPTS]\<close>.
  \<open>local_alloc\<close> works on the copy \<open>buf\<close> of the destination string in the buffer
  \<^verbatim>\<open>exten\<close> (the string itself when it is shorter than the buffer). The options are
  all the text after the first \<open>/\<close> of \<open>buf\<close>, an \<open>@\<close> and what follows it included, and
  \<open>head\<close> is the text before that \<open>/\<close>. Then \<open>LOCAL_NO_OPTIMIZATION\<close> is set exactly when
  the options hold an \<open>n\<close>, \<open>LOCAL_BRIDGE\<close> exactly when they hold a \<open>b\<close>,
  \<open>LOCAL_MOH_PASSTHRU\<close> exactly when they hold an \<open>m\<close>; the jitter buffer is enabled
  exactly when they hold both \<open>j\<close> and \<open>n\<close>, and the error is logged exactly when they
  hold \<open>j\<close> without \<open>n\<close>. The \<open>@\<close> is sought in \<open>head\<close> only: without one there the
  context is \<open>default\<close> and the extension is \<open>head\<close>; with one, the extension is the text
  before it and the context the text after it (cut to the buffer \<^verbatim>\<open>context\<close>). In
  particular a destination string without \<open>@\<close> gets the context \<open>default\<close>. The buffer
  \<^verbatim>\<open>context\<close> is taken to hold the word \<open>default\<close>.
\<close>

theorem local_alloc_options:
  assumes "7 < max_context"
  shows "let buf = ast_copy_string data max_exten;
             head = takeWhile (\<lambda>x. x \<noteq> CHR ''/'') buf;
             opt = (\<lambda>c. \<exists>ex os. buf = ex @ CHR ''/'' # os \<and> CHR ''/'' \<notin> set ex \<and> c \<in> set os);
             pv = fst (local_alloc_parse max_exten max_context data format);
             logged = snd (local_alloc_parse max_exten max_context data format)
         in (length data < max_exten \<longrightarrow> buf = data) \<and>
            (ast_test_flag (pvt_flags pv) LOCAL_NO_OPTIMIZATION \<longleftrightarrow> opt CHR ''n'') \<and>
            (ast_test_flag (pvt_flags pv) LOCAL_BRIDGE \<longleftrightarrow> opt CHR ''b'') \<and>
            (ast_test_flag (pvt_flags pv) LOCAL_MOH_PASSTHRU \<longleftrightarrow> opt CHR ''m'') \<and>
            (ast_test_flag (jb_flags (pvt_jb_conf pv)) AST_JB_ENABLED \<longleftrightarrow>
               opt CHR ''j'' \<and> opt CHR ''n'') \<and>
            (logged \<longleftrightarrow> opt CHR ''j'' \<and> \<not> opt CHR ''n'') \<and>
            (CHR ''@'' \<notin> set head \<longrightarrow> pvt_exten pv = head \<and> pvt_context pv = ''default'') \<and>
            (\<forall>e c. head = e @ CHR ''@'' # c \<and> CHR ''@'' \<notin> set e \<longrightarrow>
               pvt_exten pv = e \<and> pvt_context pv = ast_copy_string c max_context) \<and>
            (CHR ''@'' \<notin> set data \<longrightarrow> pvt_context pv = ''default'')"
proof -
  let ?buf = "ast_copy_string data max_exten"
  let ?head = "takeWhile (\<lambda>x. x \<noteq> CHR ''/'') ?buf"
  let ?opt = "\<lambda>c. \<exists>ex os. ?buf = ex @ CHR ''/'' # os \<and> CHR ''/'' \<notin> set ex \<and> c \<in> set os"
  let ?pv = "fst (local_alloc_parse max_exten max_context data format)"
  let ?logged = "snd (local_alloc_parse max_exten max_context data format)"
  note u = alloc_parse_unfold [of max_exten max_context data format, unfolded Let_def]
  have dflt: "ast_copy_string ''default'' max_context = ''default''"
    using assms by (simp add: ast_copy_string_def)
  have c1: "length data < max_exten \<longrightarrow> ?buf = data"
    by (simp add: ast_copy_string_def)
  have c2: "ast_test_flag (pvt_flags ?pv) LOCAL_NO_OPTIMIZATION \<longleftrightarrow> ?opt CHR ''n''"
    unfolding u by (simp add: test_set_flag test_flag_zero flag_defs)
  have c3: "ast_test_flag (pvt_flags ?pv) LOCAL_BRIDGE \<longleftrightarrow> ?opt CHR ''b''"
    unfolding u by (simp add: test_set_flag test_flag_zero flag_defs)
  have c4: "ast_test_flag (pvt_flags ?pv) LOCAL_MOH_PASSTHRU \<longleftrightarrow> ?opt CHR ''m''"
    unfolding u by (simp add: test_set_flag test_flag_zero flag_defs)
  have c5: "ast_test_flag (jb_flags (pvt_jb_conf ?pv)) AST_JB_ENABLED \<longleftrightarrow>
              ?opt CHR ''j'' \<and> ?opt CHR ''n''"
    unfolding u
    by (simp add: test_set_flag test_flag_zero g_jb_conf_def AST_JB_ENABLED_def)
  have c6: "?logged \<longleftrightarrow> ?opt CHR ''j'' \<and> \<not> ?opt CHR ''n''"
    unfolding u by simp
  have c7: "CHR ''@'' \<notin> set ?head \<longrightarrow> pvt_exten ?pv = ?head \<and> pvt_context ?pv = ''default''"
    unfolding u by (simp add: dflt takeWhile_all)
  have c8: "\<forall>e c. ?head = e @ CHR ''@'' # c \<and> CHR ''@'' \<notin> set e \<longrightarrow>
               pvt_exten ?pv = e \<and> pvt_context ?pv = ast_copy_string c max_context"
  proof (intro allI impI)
    fix e c
    assume h: "?head = e @ CHR ''@'' # c \<and> CHR ''@'' \<notin> set e"
    then have tw: "takeWhile (\<lambda>x. x \<noteq> CHR ''@'') ?head = e"
      by (simp add: before_first)
    have "CHR ''@'' \<in> set ?head" using h by simp
    moreover have "drop (Suc (length e)) ?head = c" using h by simp
    ultimately show "pvt_exten ?pv = e \<and> pvt_context ?pv = ast_copy_string c max_context"
      unfolding u using tw by simp
  qed
  have "CHR ''@'' \<notin> set data \<longrightarrow> CHR ''@'' \<notin> set ?head"
    by (auto simp: ast_copy_string_def dest: set_takeWhile_subset in_set_takeD)
  with c7 have c9: "CHR ''@'' \<notin> set data \<longrightarrow> pvt_context ?pv = ''default''"
    by blast
  show ?thesis
    unfolding Let_def by (intro conjI) (fact c1 c2 c3 c4 c5 c6 c7 c8 c9)+
qed

theorem local_alloc_options_witness:
  "(7::nat) < 80 \<and>
   ast_test_flag (pvt_flags (fst (local_alloc_parse 80 80 ''1000@internal/nj'' 0))) LOCAL_NO_OPTIMIZATION \<and>
   ast_test_flag (jb_flags (pvt_jb_conf (fst (local_alloc_parse 80 80 ''1000@internal/nj'' 0)))) AST_JB_ENABLED \<and>
   \<not> snd (local_alloc_parse 80 80 ''1000@internal/nj'' 0) \<and>
   \<not> ast_test_flag (pvt_flags (fst (local_alloc_parse 80 80 ''1000@internal/nj'' 0))) LOCAL_BRIDGE \<and>
   pvt_exten (fst (local_alloc_parse 80 80 ''1000@internal/nj'' 0)) = ''1000'' \<and>
   pvt_context (fst (local_alloc_parse 80 80 ''1000@internal/nj'' 0)) = ''internal''"
proof -
  have h: "(7::nat) < 80" by simp
  have b: "ast_copy_string ''1000@internal/nj'' 80 = ''1000@internal/nj''"
    by (simp add: ast_copy_string_def)
  have n: "\<exists>ex os. ''1000@internal/nj'' = ex @ CHR ''/'' # os \<and> CHR ''/'' \<notin> set ex \<and> CHR ''n'' \<in> set os"
    by (rule exI [of _ "''1000@internal''"], rule exI [of _ "''nj''"]) simp
  have j: "\<exists>ex os. ''1000@internal/nj'' = ex @ CHR ''/'' # os \<and> CHR ''/'' \<notin> set ex \<and> CHR ''j'' \<in> set os"
    by (rule exI [of _ "''1000@internal''"], rule exI [of _ "''nj''"]) simp
  have nb: "\<not> (\<exists>ex os. ''1000@internal/nj'' = ex @ CHR ''/'' # os \<and> CHR ''/'' \<notin> set ex \<and> CHR ''b'' \<in> set os)"
    by (simp add: decomp_iff [where P = "\<lambda>os. CHR ''b'' \<in> set os"])
  have hd: "takeWhile (\<lambda>x. x \<noteq> CHR ''/'') ''1000@internal/nj'' = ''1000'' @ CHR ''@'' # ''internal''"
    by simp
  note t = local_alloc_options [OF h, of "''1000@internal/nj''" 80 0, unfolded Let_def b]
  from t have a: "\<forall>e c. takeWhile (\<lambda>x. x \<noteq> CHR ''/'') ''1000@internal/nj'' = e @ CHR ''@'' # c \<and>
        CHR ''@'' \<notin> set e \<longrightarrow>
      pvt_exten (fst (local_alloc_parse 80 80 ''1000@internal/nj'' 0)) = e \<and>
      pvt_context (fst (local_alloc_parse 80 80 ''1000@internal/nj'' 0)) = ast_copy_string c 80"
    by (elim conjE) assumption
  from a [rule_format, of "''1000''" "''internal''"]
  have ec: "pvt_exten (fst (local_alloc_parse 80 80 ''1000@internal/nj'' 0)) = ''1000'' \<and>
      pvt_context (fst (local_alloc_parse 80 80 ''1000@internal/nj'' 0)) = ast_copy_string ''internal'' 80"
    by simp
  from t n j nb ec show ?thesis
    by (simp add: ast_copy_string_def)
qed

text \<open>
  Claim C7 as stated, with the shape \<open>EXTEN[/OPTS][@CONTEXT]\<close>, fails at
  \<open>1000/j@internal\<close>: the options are \<open>j@internal\<close>, so that the \<open>n\<close> of \<open>internal\<close>
  sets \<open>LOCAL_NO_OPTIMIZATION\<close>, the jitter buffer is enabled although the option \<open>n\<close>
  was not given, no error is logged, and the context is \<open>default\<close> although
  \<open>@internal\<close> is there.
\<close>

theorem local_alloc_options_counterexample:
  "pvt_exten (fst (local_alloc_parse 80 80 ''1000/j@internal'' 0)) = ''1000'' \<and>
   pvt_context (fst (local_alloc_parse 80 80 ''1000/j@internal'' 0)) = ''default'' \<and>
   ast_test_flag (pvt_flags (fst (local_alloc_parse 80 80 ''1000/j@internal'' 0)))
     LOCAL_NO_OPTIMIZATION \<and>
   ast_test_flag (jb_flags (pvt_jb_conf (fst (local_alloc_parse 80 80 ''1000/j@internal'' 0))))
     AST_JB_ENABLED \<and>
   \<not> snd (local_alloc_parse 80 80 ''1000/j@internal'' 0)"
  by code_simp

section \<open>The bridged channel\<close>

text \<open>
  Claim C8, as amended. On a channel \<open>bridge\<close> whose private structure is \<open>p\<close>,
  \<open>local_bridgedchannel\<close> leaves the world unchanged and returns: \<open>bridge\<close> itself when
  \<open>LOCAL_BRIDGE\<close> is clear; with the flag set, the bridge partner of the opposite endpoint
  when that endpoint exists and has one, the opposite endpoint itself when it exists and
  has no bridge partner, and \<open>bridge\<close> when there is no opposite endpoint.
\<close>

theorem local_bridgedchannel_spec:
  assumes "ch_tech_pvt (chans w bridge) = Some p"
    and "opposite = (if Some bridge = pvt_owner (pvts w p) then pvt_chan (pvts w p)
                     else pvt_owner (pvts w p))"
  shows "fst (local_bridgedchannel w chan bridge) = w \<and>
    (\<not> test_pvt_flag w p LOCAL_BRIDGE \<longrightarrow>
       snd (local_bridgedchannel w chan bridge) = Some bridge) \<and>
    (test_pvt_flag w p LOCAL_BRIDGE \<longrightarrow>
       (\<forall>opp far. opposite = Some opp \<and> ch_bridge (chans w opp) = Some far \<longrightarrow>
          snd (local_bridgedchannel w chan bridge) = Some far) \<and>
       (\<forall>opp. opposite = Some opp \<and> ch_bridge (chans w opp) = None \<longrightarrow>
          snd (local_bridgedchannel w chan bridge) = Some opp) \<and>
       (opposite = None \<longrightarrow> snd (local_bridgedchannel w chan bridge) = Some bridge))"
  using assms
  by (auto simp: local_bridgedchannel_def Let_def mutex_lock_unlock test_pvt_flag_lock
      mutex_lock_fields)

theorem local_bridgedchannel_spec_witness:
  "snd (local_bridgedchannel (pair_world LOCAL_BRIDGE) 1 1) = Some 3 \<and>
   snd (local_bridgedchannel (pair_world LOCAL_BRIDGE) 2 2) = Some 1 \<and>
   snd (local_bridgedchannel (pair_world 0) 1 1) = Some 1 \<and>
   fst (local_bridgedchannel (pair_world LOCAL_BRIDGE) 1 1) = pair_world LOCAL_BRIDGE"
proof -
  have t1: "ch_tech_pvt (chans (pair_world fl) 1) = Some 0" for fl
    by (simp add: pair_world_def)
  have t2: "ch_tech_pvt (chans (pair_world fl) 2) = Some 0" for fl
    by (simp add: pair_world_def)
  have o1: "Some 2 = (if Some 1 = pvt_owner (pvts (pair_world fl) 0)
                      then pvt_chan (pvts (pair_world fl) 0)
                      else pvt_owner (pvts (pair_world fl) 0))" for fl
    by (simp add: pair_world_def)
  have o2: "Some 1 = (if Some 2 = pvt_owner (pvts (pair_world fl) 0)
                      then pvt_chan (pvts (pair_world fl) 0)
                      else pvt_owner (pvts (pair_world fl) 0))" for fl
    by (simp add: pair_world_def)
  have f1: "test_pvt_flag (pair_world LOCAL_BRIDGE) 0 LOCAL_BRIDGE"
    by (simp add: pair_world_def test_pvt_flag_def ast_test_flag_def LOCAL_BRIDGE_def)
  have f0: "\<not> test_pvt_flag (pair_world 0) 0 LOCAL_BRIDGE"
    by (simp add: pair_world_def test_pvt_flag_def ast_test_flag_def)
  have b2: "ch_bridge (chans (pair_world LOCAL_BRIDGE) 2) = Some 3"
    by (simp add: pair_world_def)
  have b1: "ch_bridge (chans (pair_world LOCAL_BRIDGE) 1) = None"
    by (simp add: pair_world_def chan0_def)
  from local_bridgedchannel_spec [OF t1 o1, of LOCAL_BRIDGE 1] f1 b2
  have r1: "snd (local_bridgedchannel (pair_world LOCAL_BRIDGE) 1 1) = Some 3 \<and>
            fst (local_bridgedchannel (pair_world LOCAL_BRIDGE) 1 1) = pair_world LOCAL_BRIDGE"
    by blast
  from local_bridgedchannel_spec [OF t2 o2, of LOCAL_BRIDGE 2] f1 b1
  have r2: "snd (local_bridgedchannel (pair_world LOCAL_BRIDGE) 2 2) = Some 1"
    by blast
  from local_bridgedchannel_spec [OF t1 o1, of 0 1] f0
  have r3: "snd (local_bridgedchannel (pair_world 0) 1 1) = Some 1"
    by blast
  from r1 r2 r3 show ?thesis by simp
qed

text \<open>
  Claim C8 as stated fails when the opposite endpoint has no bridge partner: with
  \<open>LOCAL_BRIDGE\<close> set, the query on the endpoint \<open>2\<close>, whose opposite endpoint \<open>1\<close> is
  not bridged, returns the endpoint \<open>1\<close> itself and not its (absent) bridge partner.
\<close>

theorem local_bridgedchannel_counterexample:
  "test_pvt_flag (pair_world LOCAL_BRIDGE) 0 LOCAL_BRIDGE \<and>
   pvt_owner (pvts (pair_world LOCAL_BRIDGE) 0) = Some 1 \<and>
   pvt_chan (pvts (pair_world LOCAL_BRIDGE) 0) = Some 2 \<and>
   ch_bridge (chans (pair_world LOCAL_BRIDGE) 1) = None \<and>
   snd (local_bridgedchannel (pair_world LOCAL_BRIDGE) 2 2) = Some 1"
  by (simp add: local_bridgedchannel_def pair_world_def chan0_def test_pvt_flag_def
      ast_test_flag_def LOCAL_BRIDGE_def ast_mutex_lock_def ast_mutex_unlock_def upd_pvt_def
      Let_def)

section \<open>Option queries\<close>

text \<open>One round of the loop of \<open>local_queryoption\<close>, entered with the mutex held.\<close>

lemma queryoption_round:
  "queryoption_try_again sw sched (ast_mutex_lock wb p) ast p opt =
     (case (if IS_OUTBOUND wb ast p then pvt_owner (pvts wb p) else pvt_chan (pvts wb p)) of
        None \<Rightarrow> Returned (wb, sched, - 1)
      | Some chan \<Rightarrow>
          if ch_busy (chans wb chan)
          then (case sched of
                  [] \<Rightarrow> Stuck
                | e # rest \<Rightarrow>
                    if freed (e wb) p then Fault
                    else queryoption_try_again sw rest (ast_mutex_lock (e wb) p) ast p opt)
          else
            (case ast_bridged_channel sw (ast_channel_lock (ast_mutex_lock wb p) chan) chan of
               None \<Rightarrow> Returned (wb, sched, - 1)
             | Some bridged \<Rightarrow>
                 if ch_busy (chans wb bridged)
                 then (case sched of
                         [] \<Rightarrow> Stuck
                       | e # rest \<Rightarrow>
                           if freed (e wb) p then Fault
                           else queryoption_try_again sw rest (ast_mutex_lock (e wb) p) ast p opt)
                 else Returned (wb, sched,
                        ast_channel_queryoption sw
                          (ast_channel_lock (ast_channel_lock (ast_mutex_lock wb p) chan) bridged)
                          bridged opt)))"
  apply (subst queryoption_try_again.simps)
  apply (simp only: IS_OUTBOUND_lock mutex_lock_fields)
  apply (cases "if IS_OUTBOUND wb ast p then pvt_owner (pvts wb p) else pvt_chan (pvts wb p)")
   apply (simp add: mutex_lock_unlock)
  subgoal for chan
    apply (simp only: option.case)
    apply (cases "ch_busy (chans wb chan)")
     apply (cases sched; simp add: ast_channel_trylock_def mutex_lock_busy deadlock_avoidance_lock
        freed_fields)
    apply (simp add: ast_channel_trylock_def mutex_lock_busy chan_lock_busy)
    apply (cases "ast_bridged_channel sw (ast_channel_lock (ast_mutex_lock wb p) chan) chan")
     apply (simp add: mutex_unlock_chan_lock channel_lock_unlock)
    subgoal for bridged
      apply (cases "ch_busy (chans wb bridged)")
       apply (cases sched; simp add: ast_channel_trylock_def chan_lock_busy mutex_lock_busy
          channel_lock_unlock deadlock_avoidance_lock freed_fields)
      apply (simp add: ast_channel_trylock_def chan_lock_busy mutex_lock_busy
          mutex_unlock_chan_lock2 channel_unlock2)
      done
    done
  done

text \<open>
  A round of the loop either returns in the world it was entered in, or sleeps for one
  step of the schedule and starts again.
\<close>

lemma queryoption_round_nil:
  "queryoption_try_again sw [] (ast_mutex_lock wb p) ast p opt = Returned (w', sched', r) \<Longrightarrow>
   w' = wb \<and> sched' = [] \<and>
   r = (case (if IS_OUTBOUND wb ast p then pvt_owner (pvts wb p) else pvt_chan (pvts wb p)) of
          None \<Rightarrow> - 1
        | Some chan \<Rightarrow>
            (case ast_bridged_channel sw (ast_channel_lock (ast_mutex_lock wb p) chan) chan of
               None \<Rightarrow> - 1
             | Some bridged \<Rightarrow>
                 ast_channel_queryoption sw
                   (ast_channel_lock (ast_channel_lock (ast_mutex_lock wb p) chan) bridged)
                   bridged opt))"
  apply (subst (asm) queryoption_round)
  apply (cases "if IS_OUTBOUND wb ast p then pvt_owner (pvts wb p) else pvt_chan (pvts wb p)")
   apply (simp only: option.case result.inject prod.inject simp_thms)
  subgoal for chan
    apply (simp only: option.case)
    apply (cases "ch_busy (chans wb chan)")
     apply (simp split: if_splits)
    apply (simp only: if_False)
    apply (cases "ast_bridged_channel sw (ast_channel_lock (ast_mutex_lock wb p) chan) chan")
     apply (simp only: option.case result.inject prod.inject simp_thms)
    subgoal for bridged
      apply (simp only: option.case)
      apply (cases "ch_busy (chans wb bridged)")
       apply (simp split: if_splits)
      apply (simp only: if_False result.inject prod.inject)
      apply auto
      done
    done
  done

lemma queryoption_round_cons:
  "queryoption_try_again sw (e # rest) (ast_mutex_lock wb p) ast p opt = Returned (w', sched', r) \<Longrightarrow>
   (w' = wb \<and> sched' = e # rest \<and>
    r = (case (if IS_OUTBOUND wb ast p then pvt_owner (pvts wb p) else pvt_chan (pvts wb p)) of
          None \<Rightarrow> - 1
        | Some chan \<Rightarrow>
            (case ast_bridged_channel sw (ast_channel_lock (ast_mutex_lock wb p) chan) chan of
               None \<Rightarrow> - 1
             | Some bridged \<Rightarrow>
                 ast_channel_queryoption sw
                   (ast_channel_lock (ast_channel_lock (ast_mutex_lock wb p) chan) bridged)
                   bridged opt))) \<or>
   queryoption_try_again sw rest (ast_mutex_lock (e wb) p) ast p opt = Returned (w', sched', r)"
  apply (subst (asm) queryoption_round)
  apply (cases "if IS_OUTBOUND wb ast p then pvt_owner (pvts wb p) else pvt_chan (pvts wb p)")
   apply (simp only: option.case result.inject prod.inject simp_thms)
  subgoal for chan
    apply (simp only: option.case)
    apply (cases "ch_busy (chans wb chan)")
     apply (simp split: if_splits)
    apply (simp only: if_False)
    apply (cases "ast_bridged_channel sw (ast_channel_lock (ast_mutex_lock wb p) chan) chan")
     apply (simp only: option.case result.inject prod.inject simp_thms)
    subgoal for bridged
      apply (simp only: option.case)
      apply (cases "ch_busy (chans wb bridged)")
       apply (simp split: if_splits)
      apply (simp only: if_False result.inject prod.inject)
      apply auto
      done
    done
  done

text \<open>
  What the loop returns is fixed by the world it returns in (the world it was entered
  in, after some steps of the schedule): \<open>- 1\<close> when the far endpoint is null there,
  \<open>- 1\<close> when the switch reports no bridged channel for it, and the answer of the bridged
  channel otherwise.
\<close>

lemma queryoption_try_again_result:
  "queryoption_try_again sw sched (ast_mutex_lock wb p) ast p opt = Returned (w', sched', r) \<Longrightarrow>
   (\<exists>k\<le>length sched. w' = foldl (\<lambda>w e. e w) wb (take k sched) \<and> sched' = drop k sched) \<and>
   r = (case (if IS_OUTBOUND w' ast p then pvt_owner (pvts w' p) else pvt_chan (pvts w' p)) of
          None \<Rightarrow> - 1
        | Some chan \<Rightarrow>
            (case ast_bridged_channel sw (ast_channel_lock (ast_mutex_lock w' p) chan) chan of
               None \<Rightarrow> - 1
             | Some bridged \<Rightarrow>
                 ast_channel_queryoption sw
                   (ast_channel_lock (ast_channel_lock (ast_mutex_lock w' p) chan) bridged)
                   bridged opt))"
proof (induction sched arbitrary: wb)
  case Nil
  note n = queryoption_round_nil [OF Nil.prems]
  have a: "w' = wb" by (rule n [THEN conjunct1])
  have b: "sched' = []" by (rule n [THEN conjunct2, THEN conjunct1])
  have ex: "\<exists>k\<le>length []. w' = foldl (\<lambda>w e. e w) wb (take k []) \<and> sched' = drop k []"
    by (simp add: a b)
  have rr: "r = (case (if IS_OUTBOUND w' ast p then pvt_owner (pvts w' p) else pvt_chan (pvts w' p)) of
          None \<Rightarrow> - 1
        | Some chan \<Rightarrow>
            (case ast_bridged_channel sw (ast_channel_lock (ast_mutex_lock w' p) chan) chan of
               None \<Rightarrow> - 1
             | Some bridged \<Rightarrow>
                 ast_channel_queryoption sw
                   (ast_channel_lock (ast_channel_lock (ast_mutex_lock w' p) chan) bridged)
                   bridged opt))"
    unfolding a by (rule n [THEN conjunct2, THEN conjunct2])
  from ex rr show ?case by (rule conjI)
next
  case (Cons e rest)
  from queryoption_round_cons [OF Cons.prems] show ?case
  proof
    assume fin: "w' = wb \<and> sched' = e # rest \<and>
    r = (case (if IS_OUTBOUND wb ast p then pvt_owner (pvts wb p) else pvt_chan (pvts wb p)) of
          None \<Rightarrow> - 1
        | Some chan \<Rightarrow>
            (case ast_bridged_channel sw (ast_channel_lock (ast_mutex_lock wb p) chan) chan of
               None \<Rightarrow> - 1
             | Some bridged \<Rightarrow>
                 ast_channel_queryoption sw
                   (ast_channel_lock (ast_channel_lock (ast_mutex_lock wb p) chan) bridged)
                   bridged opt))"
    have a: "w' = wb" by (rule fin [THEN conjunct1])
    have b: "sched' = e # rest" by (rule fin [THEN conjunct2, THEN conjunct1])
    have ex: "\<exists>k\<le>length (e # rest). w' = foldl (\<lambda>w e. e w) wb (take k (e # rest)) \<and>
        sched' = drop k (e # rest)"
      by (rule exI [of _ 0]) (simp add: a b)
    have rr: "r = (case (if IS_OUTBOUND w' ast p then pvt_owner (pvts w' p) else pvt_chan (pvts w' p)) of
          None \<Rightarrow> - 1
        | Some chan \<Rightarrow>
            (case ast_bridged_channel sw (ast_channel_lock (ast_mutex_lock w' p) chan) chan of
               None \<Rightarrow> - 1
             | Some bridged \<Rightarrow>
                 ast_channel_queryoption sw
                   (ast_channel_lock (ast_channel_lock (ast_mutex_lock w' p) chan) bridged)
                   bridged opt))"
      unfolding a by (rule fin [THEN conjunct2, THEN conjunct2])
    from ex rr show ?thesis by (rule conjI)
  next
    assume retry: "queryoption_try_again sw rest (ast_mutex_lock (e wb) p) ast p opt = Returned (w', sched', r)"
    note ih = Cons.IH [OF retry]
    from ih obtain k where k: "k \<le> length rest"
      "w' = foldl (\<lambda>w e. e w) (e wb) (take k rest)" "sched' = drop k rest" by blast
    then have "Suc k \<le> length (e # rest) \<and> w' = foldl (\<lambda>w e. e w) wb (take (Suc k) (e # rest)) \<and>
      sched' = drop (Suc k) (e # rest)" by simp
    then have ex: "\<exists>k\<le>length (e # rest). w' = foldl (\<lambda>w e. e w) wb (take k (e # rest)) \<and>
        sched' = drop k (e # rest)"
      by blast
    from ex ih [THEN conjunct2] show ?thesis by (rule conjI)
  qed
qed

text \<open>
  The function after \<open>k\<close> back-offs. \<open>W j\<close> is the world after \<open>j\<close> steps of the schedule
  and \<open>far_end\<close> the far endpoint of the pair. If at each of the first \<open>k\<close> rounds the far
  endpoint is there and its lock is held elsewhere, the pair is still there after each
  sleep, and after \<open>k\<close> steps the far endpoint is null, or its lock is free and the switch
  reports no bridged channel for it, then the function returns \<open>- 1\<close> in that world.
\<close>

lemma local_queryoption_backoff:
  "let W = (\<lambda>j. foldl (\<lambda>w e. e w) w (take j sched));
       far_end = (\<lambda>w. if IS_OUTBOUND w ast p then pvt_owner (pvts w p) else pvt_chan (pvts w p))
   in ch_tech_pvt (chans w ast) = Some p \<and> opt = AST_OPTION_T38_STATE \<and> k \<le> length sched \<and>
      (\<forall>j<k. (\<exists>c. far_end (W j) = Some c \<and> ch_busy (chans (W j) c)) \<and>
        \<not> freed (W (Suc j)) p) \<and>
      (far_end (W k) = None \<or>
       (\<exists>c. far_end (W k) = Some c \<and> \<not> ch_busy (chans (W k) c) \<and>
       ast_bridged_channel sw (ast_channel_lock (ast_mutex_lock (W k) p) c) c = None)) \<longrightarrow>
      local_queryoption sw sched w ast opt = Returned (W k, drop k sched, - 1)"
proof -
  define far where
    "far = (\<lambda>w. if IS_OUTBOUND w ast p then pvt_owner (pvts w p) else pvt_chan (pvts w p))"
  define W where "W = (\<lambda>(sched :: schedule) (w :: world) j. foldl (\<lambda>w e. e w) w (take j sched))"
  have round0: "queryoption_try_again sw sched (ast_mutex_lock w p) ast p opt = Returned (w, sched, - 1)"
    if "far w = None \<or>
        (\<exists>c. far w = Some c \<and> \<not> ch_busy (chans w c) \<and>
             ast_bridged_channel sw (ast_channel_lock (ast_mutex_lock w p) c) c = None)"
    for w sched
    using that unfolding far_def by (auto simp: queryoption_round)
  have round1: "queryoption_try_again sw (e # rest) (ast_mutex_lock w p) ast p opt =
                queryoption_try_again sw rest (ast_mutex_lock (e w) p) ast p opt"
    if "far w = Some c" and "ch_busy (chans w c)" and "\<not> freed (e w) p"
    for w e rest c
    using that unfolding far_def by (subst queryoption_round) simp
  have main: "queryoption_try_again sw sched (ast_mutex_lock w p) ast p opt =
                Returned (W sched w k, drop k sched, - 1)"
    if "k \<le> length sched"
      and "\<forall>j<k. (\<exists>c. far (W sched w j) = Some c \<and> ch_busy (chans (W sched w j) c)) \<and>
                 \<not> freed (W sched w (Suc j)) p"
      and "far (W sched w k) = None \<or>
           (\<exists>c. far (W sched w k) = Some c \<and> \<not> ch_busy (chans (W sched w k) c) \<and>
                ast_bridged_channel sw (ast_channel_lock (ast_mutex_lock (W sched w k) p) c) c = None)"
    for k sched w
    using that
  proof (induction k arbitrary: sched w)
    case 0
    have "W sched w 0 = w" by (simp add: W_def)
    with "0.prems"(3) round0 [of w sched] show ?case by simp
  next
    case (Suc k)
    from Suc.prems(1) obtain e rest where sched: "sched = e # rest"
      by (cases sched) auto
    have W0: "W sched w 0 = w" by (simp add: W_def)
    have WS: "W sched w (Suc j) = W rest (e w) j" for j by (simp add: W_def sched)
    have W1: "W rest (e w) 0 = e w" by (simp add: W_def)
    from Suc.prems(2) [rule_format, of 0]
    have first: "(\<exists>c. far w = Some c \<and> ch_busy (chans w c)) \<and> \<not> freed (e w) p"
      by (simp add: W0 WS W1)
    then obtain c where c: "far w = Some c" "ch_busy (chans w c)" by blast
    have len: "k \<le> length rest" using Suc.prems(1) by (simp add: sched)
    have step: "\<forall>j<k. (\<exists>c. far (W rest (e w) j) = Some c \<and> ch_busy (chans (W rest (e w) j) c)) \<and>
                 \<not> freed (W rest (e w) (Suc j)) p"
    proof (intro allI impI)
      fix j assume "j < k"
      then have "Suc j < Suc k" by simp
      from Suc.prems(2) [rule_format, OF this, unfolded WS]
      show "(\<exists>c. far (W rest (e w) j) = Some c \<and> ch_busy (chans (W rest (e w) j) c)) \<and>
                 \<not> freed (W rest (e w) (Suc j)) p" .
    qed
    have last: "far (W rest (e w) k) = None \<or>
           (\<exists>c. far (W rest (e w) k) = Some c \<and> \<not> ch_busy (chans (W rest (e w) k) c) \<and>
                ast_bridged_channel sw (ast_channel_lock (ast_mutex_lock (W rest (e w) k) p) c) c = None)"
      using Suc.prems(3) unfolding WS .
    have "queryoption_try_again sw sched (ast_mutex_lock w p) ast p opt =
          queryoption_try_again sw rest (ast_mutex_lock (e w) p) ast p opt"
      unfolding sched using c first by (rule_tac round1) auto
    also note Suc.IH [OF len step last]
    finally show ?case by (simp add: W_def sched)
  qed
  have eq: "local_queryoption sw sched w ast opt =
            queryoption_try_again sw sched (ast_mutex_lock w p) ast p opt"
    if "ch_tech_pvt (chans w ast) = Some p" and "opt = AST_OPTION_T38_STATE"
    using that by (simp add: local_queryoption_def)
  show ?thesis
    unfolding Let_def
    apply (intro impI)
    apply (elim conjE)
    apply (rule trans [OF eq])
      apply assumption
     apply assumption
    apply (rule main [unfolded W_def far_def]; assumption)
    done
qed

text \<open>
  Claim C9. \<open>local_queryoption\<close> returns \<open>- 1\<close> and leaves the world as it found it
  (nothing of the schedule is consumed) for every option other than
  \<open>AST_OPTION_T38_STATE\<close>; and for \<open>AST_OPTION_T38_STATE\<close> when the far endpoint of the
  pair is \<^verbatim>\<open>NULL\<close>, and when the far endpoint is there, its lock is free and the switch
  reports no bridged channel for it. After any number of back-offs, whenever the function
  returns, the world it leaves is the world it found after some steps of the schedule (no
  change is its own), and it returns \<open>- 1\<close> whenever in that world the far endpoint of the
  pair is \<^verbatim>\<open>NULL\<close> or the switch reports no bridged channel for it. And it does return
  \<open>- 1\<close> after \<open>k\<close> back-offs on a far endpoint locked elsewhere, the pair still there
  after each sleep, once the far endpoint is null, or free and without a bridged channel
  (\<open>W j\<close> is the world after \<open>j\<close> steps of the schedule, \<open>far_end\<close> the far endpoint).
\<close>

theorem local_queryoption_unsupported:
  "(opt \<noteq> AST_OPTION_T38_STATE \<longrightarrow>
      local_queryoption sw sched w ast opt = Returned (w, sched, - 1)) \<and>
   (ch_tech_pvt (chans w ast) = Some p \<and>
    (if IS_OUTBOUND w ast p then pvt_owner (pvts w p) else pvt_chan (pvts w p)) = None \<longrightarrow>
      local_queryoption sw sched w ast opt = Returned (w, sched, - 1)) \<and>
   (ch_tech_pvt (chans w ast) = Some p \<and>
    (if IS_OUTBOUND w ast p then pvt_owner (pvts w p) else pvt_chan (pvts w p)) = Some far \<and>
    \<not> ch_busy (chans w far) \<and>
    ast_bridged_channel sw (ast_channel_lock (ast_mutex_lock w p) far) far = None \<longrightarrow>
      local_queryoption sw sched w ast opt = Returned (w, sched, - 1)) \<and>
   (\<forall>w' sched' r. local_queryoption sw sched w ast opt = Returned (w', sched', r) \<longrightarrow>
      (\<exists>k\<le>length sched. w' = foldl (\<lambda>w e. e w) w (take k sched) \<and> sched' = drop k sched) \<and>
      (ch_tech_pvt (chans w ast) = Some p \<and>
       (if IS_OUTBOUND w' ast p then pvt_owner (pvts w' p) else pvt_chan (pvts w' p)) = None \<longrightarrow>
         r = - 1) \<and>
      (ch_tech_pvt (chans w ast) = Some p \<and>
       (if IS_OUTBOUND w' ast p then pvt_owner (pvts w' p) else pvt_chan (pvts w' p)) = Some far \<and>
       ast_bridged_channel sw (ast_channel_lock (ast_mutex_lock w' p) far) far = None \<longrightarrow>
         r = - 1)) \<and>
   (\<forall>k. let W = (\<lambda>j. foldl (\<lambda>w e. e w) w (take j sched));
            far_end = (\<lambda>w. if IS_OUTBOUND w ast p then pvt_owner (pvts w p) else pvt_chan (pvts w p))
        in ch_tech_pvt (chans w ast) = Some p \<and> opt = AST_OPTION_T38_STATE \<and> k \<le> length sched \<and>
           (\<forall>j<k. (\<exists>c. far_end (W j) = Some c \<and> ch_busy (chans (W j) c)) \<and>
                  \<not> freed (W (Suc j)) p) \<and>
           (far_end (W k) = None \<or>
            (\<exists>c. far_end (W k) = Some c \<and> \<not> ch_busy (chans (W k) c) \<and>
                 ast_bridged_channel sw (ast_channel_lock (ast_mutex_lock (W k) p) c) c = None)) \<longrightarrow>
           local_queryoption sw sched w ast opt = Returned (W k, drop k sched, - 1))"
proof (intro conjI impI allI)
  assume "opt \<noteq> AST_OPTION_T38_STATE"
  then show "local_queryoption sw sched w ast opt = Returned (w, sched, - 1)"
    by (simp add: local_queryoption_def split: option.split)
next
  assume "ch_tech_pvt (chans w ast) = Some p \<and>
    (if IS_OUTBOUND w ast p then pvt_owner (pvts w p) else pvt_chan (pvts w p)) = None"
  then show "local_queryoption sw sched w ast opt = Returned (w, sched, - 1)"
    by (simp add: local_queryoption_def queryoption_round)
next
  assume "ch_tech_pvt (chans w ast) = Some p \<and>
    (if IS_OUTBOUND w ast p then pvt_owner (pvts w p) else pvt_chan (pvts w p)) = Some far \<and>
    \<not> ch_busy (chans w far) \<and>
    ast_bridged_channel sw (ast_channel_lock (ast_mutex_lock w p) far) far = None"
  then show "local_queryoption sw sched w ast opt = Returned (w, sched, - 1)"
    by (simp add: local_queryoption_def queryoption_round)
next
  fix w' sched' r
  assume a: "local_queryoption sw sched w ast opt = Returned (w', sched', r)"
  show "\<exists>k\<le>length sched. w' = foldl (\<lambda>w e. e w) w (take k sched) \<and> sched' = drop k sched"
  proof (cases "ch_tech_pvt (chans w ast) = None \<or> opt \<noteq> AST_OPTION_T38_STATE")
    case True
    with a have "w' = w \<and> sched' = sched"
      by (auto simp: local_queryoption_def split: option.splits)
    then have "0 \<le> length sched \<and> w' = foldl (\<lambda>w e. e w) w (take 0 sched) \<and> sched' = drop 0 sched"
      by simp
    then show ?thesis by blast
  next
    case False
    then obtain q where q: "ch_tech_pvt (chans w ast) = Some q" and o: "opt = AST_OPTION_T38_STATE"
      by auto
    from a q o have "queryoption_try_again sw sched (ast_mutex_lock w q) ast q opt = Returned (w', sched', r)"
      by (simp add: local_queryoption_def)
    then show ?thesis by (rule queryoption_try_again_result [THEN conjunct1])
  qed
next
  fix w' sched' r
  assume a: "local_queryoption sw sched w ast opt = Returned (w', sched', r)"
  assume h: "ch_tech_pvt (chans w ast) = Some p \<and>
    (if IS_OUTBOUND w' ast p then pvt_owner (pvts w' p) else pvt_chan (pvts w' p)) = None"
  show "r = - 1"
  proof (cases "opt = AST_OPTION_T38_STATE")
    case False
    with a show ?thesis by (auto simp: local_queryoption_def split: option.splits)
  next
    case True
    with a h have "queryoption_try_again sw sched (ast_mutex_lock w p) ast p opt = Returned (w', sched', r)"
      by (simp add: local_queryoption_def)
    from queryoption_try_again_result [OF this, THEN conjunct2] h show ?thesis
      by (simp only: option.case)
  qed
next
  fix w' sched' r
  assume a: "local_queryoption sw sched w ast opt = Returned (w', sched', r)"
  assume h: "ch_tech_pvt (chans w ast) = Some p \<and>
    (if IS_OUTBOUND w' ast p then pvt_owner (pvts w' p) else pvt_chan (pvts w' p)) = Some far \<and>
    ast_bridged_channel sw (ast_channel_lock (ast_mutex_lock w' p) far) far = None"
  show "r = - 1"
  proof (cases "opt = AST_OPTION_T38_STATE")
    case False
    with a show ?thesis by (auto simp: local_queryoption_def split: option.splits)
  next
    case True
    with a h have "queryoption_try_again sw sched (ast_mutex_lock w p) ast p opt = Returned (w', sched', r)"
      by (simp add: local_queryoption_def)
    from queryoption_try_again_result [OF this, THEN conjunct2] h show ?thesis
      by (simp only: option.case)
  qed
qed (rule local_queryoption_backoff)

text \<open>
  The three immediate returns on the pair of \<open>pair_world\<close>, and a query on the channel
  \<open>2\<close> that finds the owner \<open>1\<close> locked, backs off, and wakes up after the owner has been
  hung up: it returns \<open>- 1\<close> in the world the hangup left.
\<close>

theorem local_queryoption_unsupported_witness:
  "local_queryoption example_switch [] (pair_world 0) 1 (AST_OPTION_OTHER 7)
     = Returned (pair_world 0, [], - 1) \<and>
   local_queryoption example_switch []
       (upd_pvt (pair_world 0) 0 (\<lambda>pv. pv\<lparr>pvt_chan := None\<rparr>)) 1 AST_OPTION_T38_STATE
     = Returned (upd_pvt (pair_world 0) 0 (\<lambda>pv. pv\<lparr>pvt_chan := None\<rparr>), [], - 1) \<and>
   local_queryoption example_switch [] (pair_world 0) 2 AST_OPTION_T38_STATE
     = Returned (pair_world 0, [], - 1) \<and>
   local_queryoption example_switch [hangup_elsewhere 1] owner_busy_world 2 AST_OPTION_T38_STATE
     = Returned (hangup_elsewhere 1 owner_busy_world, [], - 1) \<and>
   pvt_owner (pvts owner_busy_world 0) = Some 1 \<and>
   pvt_owner (pvts (hangup_elsewhere 1 owner_busy_world) 0) = None"
proof -
  let ?w0 = "upd_pvt (pair_world 0) 0 (\<lambda>pv. pv\<lparr>pvt_chan := None\<rparr>)"
  have 1: "local_queryoption example_switch [] (pair_world 0) 1 (AST_OPTION_OTHER 7)
     = Returned (pair_world 0, [], - 1)"
    using local_queryoption_unsupported
      [of "AST_OPTION_OTHER 7" example_switch "[]" "pair_world 0" 1, THEN conjunct1]
    by simp
  have h2: "ch_tech_pvt (chans ?w0 1) = Some 0 \<and>
    (if IS_OUTBOUND ?w0 1 0 then pvt_owner (pvts ?w0 0) else pvt_chan (pvts ?w0 0)) = None"
    by (simp add: pair_world_def upd_pvt_def IS_OUTBOUND_def)
  have 2: "local_queryoption example_switch [] ?w0 1 AST_OPTION_T38_STATE = Returned (?w0, [], - 1)"
    using local_queryoption_unsupported
      [of AST_OPTION_T38_STATE example_switch "[]" ?w0 1 0, THEN conjunct2, THEN conjunct1] h2
    by blast
  have h3: "ch_tech_pvt (chans (pair_world 0) 2) = Some 0 \<and>
    (if IS_OUTBOUND (pair_world 0) 2 0 then pvt_owner (pvts (pair_world 0) 0)
     else pvt_chan (pvts (pair_world 0) 0)) = Some 1 \<and>
    \<not> ch_busy (chans (pair_world 0) 1) \<and>
    ast_bridged_channel example_switch (ast_channel_lock (ast_mutex_lock (pair_world 0) 0) 1) 1 = None"
    by (simp add: pair_world_def IS_OUTBOUND_def chan0_def example_switch_def
        ast_channel_lock_def ast_mutex_lock_def upd_chan_def upd_pvt_def)
  have 3: "local_queryoption example_switch [] (pair_world 0) 2 AST_OPTION_T38_STATE
     = Returned (pair_world 0, [], - 1)"
    using local_queryoption_unsupported
      [of AST_OPTION_T38_STATE example_switch "[]" "pair_world 0" 2 0 1,
        THEN conjunct2, THEN conjunct2, THEN conjunct1] h3
    by blast
  define R where "R = local_queryoption example_switch [hangup_elsewhere 1] owner_busy_world 2
    AST_OPTION_T38_STATE"
  define W where "W = hangup_elsewhere 1 owner_busy_world"
  have ret: "(case local_queryoption example_switch [hangup_elsewhere 1] owner_busy_world 2
      AST_OPTION_T38_STATE of Returned (w', s, r) \<Rightarrow> True | Fault \<Rightarrow> False | Stuck \<Rightarrow> False)"
    by code_simp
  then obtain w' s r where R: "R = Returned (w', s, r)"
    unfolding R_def [symmetric] by (cases R) auto
  note g = local_queryoption_unsupported
    [of AST_OPTION_T38_STATE example_switch "[hangup_elsewhere 1]" owner_busy_world 2 0 1,
      THEN conjunct2, THEN conjunct2, THEN conjunct2, THEN conjunct1, rule_format,
      OF R [unfolded R_def]]
  have tp: "ch_tech_pvt (chans owner_busy_world 2) = Some 0" by code_simp
  have o0: "pvt_owner (pvts owner_busy_world 0) = Some 1" by code_simp
  have o1: "pvt_owner (pvts (hangup_elsewhere 1 owner_busy_world) 0) = None" by code_simp
  have c1: "pvt_chan (pvts (hangup_elsewhere 1 owner_busy_world) 0) = Some 2" by code_simp
  have c0: "pvt_chan (pvts owner_busy_world 0) = Some 2" by code_simp
  from g [THEN conjunct1] obtain k where k: "k \<le> 1"
    "w' = foldl (\<lambda>w e. e w) owner_busy_world (take k [hangup_elsewhere 1])"
    "s = drop k [hangup_elsewhere 1]" by auto
  have kk: "k = 0 \<or> k = 1" using k(1) by auto
  have far0: "(if IS_OUTBOUND owner_busy_world 2 0 then pvt_owner (pvts owner_busy_world 0)
      else pvt_chan (pvts owner_busy_world 0)) = Some 1"
    by (simp add: IS_OUTBOUND_def c0 o0)
  have k1: "k = 1"
  proof (rule ccontr)
    assume "k \<noteq> 1"
    with kk have "k = 0" by simp
    with k have "w' = owner_busy_world" "s = [hangup_elsewhere 1]" by simp_all
    with R have "R = Returned (owner_busy_world, [hangup_elsewhere 1], r)" by simp
    moreover have "(case local_queryoption example_switch [hangup_elsewhere 1] owner_busy_world 2
      AST_OPTION_T38_STATE of Returned (w', s, r) \<Rightarrow> s = [] | Fault \<Rightarrow> False | Stuck \<Rightarrow> False)"
      by code_simp
    ultimately show False by (simp add: R_def)
  qed
  with k have w': "w' = hangup_elsewhere 1 owner_busy_world" and s: "s = []" by simp_all
  have "r = - 1"
    using g [THEN conjunct2, THEN conjunct1] tp o1 c1 unfolding w'
    by (simp add: IS_OUTBOUND_def)
  with R w' s have 4: "local_queryoption example_switch [hangup_elsewhere 1] owner_busy_world 2
      AST_OPTION_T38_STATE = Returned (hangup_elsewhere 1 owner_busy_world, [], - 1)"
    by (simp add: R_def)
  have b0: "ch_busy (chans owner_busy_world 1)" by code_simp
  have a1: "\<not> freed (hangup_elsewhere 1 owner_busy_world) 0" by code_simp
  note g5 = local_queryoption_unsupported
    [of AST_OPTION_T38_STATE example_switch "[hangup_elsewhere 1]" owner_busy_world 2 0 1,
      THEN conjunct2, THEN conjunct2, THEN conjunct2, THEN conjunct2, THEN spec [where x = 1],
      unfolded Let_def]
  have 5: "local_queryoption example_switch [hangup_elsewhere 1] owner_busy_world 2
      AST_OPTION_T38_STATE = Returned (hangup_elsewhere 1 owner_busy_world, [], - 1)"
    using g5 tp o0 c0 o1 c1 b0 a1 by (simp add: IS_OUTBOUND_def)
  from 1 2 3 4 5 o0 o1 show ?thesis by (intro conjI)
qed

section \<open>Entry points on a channel without private structure\<close>

text \<open>
  Claim C10. When \<open>tech_pvt\<close> of the channel is \<^verbatim>\<open>NULL\<close>, each of \<open>local_answer\<close>,
  \<open>local_write\<close>, \<open>local_indicate\<close>, \<open>local_digit_begin\<close>, \<open>local_digit_end\<close>,
  \<open>local_sendtext\<close>, \<open>local_sendhtml\<close>, \<open>local_call\<close>, \<open>local_hangup\<close>,
  \<open>local_fixup\<close> (on its new channel) and \<open>local_queryoption\<close> returns \<open>- 1\<close> and
  leaves the whole world unchanged: no pair is modified and no frame is queued.
\<close>

theorem null_tech_pvt_rejected:
  assumes "ch_tech_pvt (chans w ast) = None"
  shows "local_answer sched w ast = Returned (w, sched, - 1) \<and>
         local_write sw sched w ast f = Returned (w, sched, - 1) \<and>
         local_indicate sw sched w ast condition dat dlen = Returned (w, sched, - 1) \<and>
         local_digit_begin sched w ast digit = Returned (w, sched, - 1) \<and>
         local_digit_end sched w ast digit duration = Returned (w, sched, - 1) \<and>
         local_sendtext sched w ast text = Returned (w, sched, - 1) \<and>
         local_sendhtml sched w ast subcl hdat hlen = Returned (w, sched, - 1) \<and>
         local_call sw sched w ast dest timeout = Returned (w, sched, - 1) \<and>
         local_hangup sched w ast = Returned (w, sched, - 1) \<and>
         local_fixup w oldchan ast = (w, - 1) \<and>
         local_queryoption sw sched w ast opt = Returned (w, sched, - 1)"
  using assms
  by (simp add: local_answer_def local_write_def local_indicate_def local_digit_begin_def
      local_digit_end_def local_sendtext_def local_sendhtml_def local_call_def
      local_hangup_def local_fixup_def local_queryoption_def)

theorem null_tech_pvt_rejected_witness:
  "ch_tech_pvt (chans (pair_world 0) 3) = None \<and>
   local_answer [] (pair_world 0) 3 = Returned (pair_world 0, [], - 1) \<and>
   local_write example_switch [] (pair_world 0) 3 (Some (null_frame AST_FRAME_VOICE))
     = Returned (pair_world 0, [], - 1) \<and>
   local_indicate example_switch [] (pair_world 0) 3 AST_CONTROL_RINGING DataNone 0
     = Returned (pair_world 0, [], - 1) \<and>
   local_digit_begin [] (pair_world 0) 3 CHR ''5'' = Returned (pair_world 0, [], - 1) \<and>
   local_digit_end [] (pair_world 0) 3 CHR ''5'' 100 = Returned (pair_world 0, [], - 1) \<and>
   local_sendtext [] (pair_world 0) 3 ''hello'' = Returned (pair_world 0, [], - 1) \<and>
   local_sendhtml [] (pair_world 0) 3 1 DataNone 0 = Returned (pair_world 0, [], - 1) \<and>
   local_call example_switch [] (pair_world 0) 3 ''1000@internal'' 0
     = Returned (pair_world 0, [], - 1) \<and>
   local_hangup [] (pair_world 0) 3 = Returned (pair_world 0, [], - 1) \<and>
   local_fixup (pair_world 0) 1 3 = (pair_world 0, - 1) \<and>
   local_queryoption example_switch [] (pair_world 0) 3 AST_OPTION_T38_STATE
     = Returned (pair_world 0, [], - 1)"
proof -
  have h: "ch_tech_pvt (chans (pair_world 0) 3) = None"
    by (simp add: pair_world_def chan0_def)
  show ?thesis
    using h null_tech_pvt_rejected [OF h] by simp
qed

section \<open>A cancelled forward\<close>



section \<open>The last hangup\<close>

lemma hangup_finish_last:
  assumes "pvt_owner (pvts w p) = None" and "pvt_chan (pvts w p) = None"
  shows "hangup_finish sched w p isoutbound f =
     Returned
       (if test_pvt_flag w p LOCAL_GLARE_DETECT
        then fst (ast_mutex_unlock
                    ((set_pvt_flag w p LOCAL_CANCEL_QUEUE)\<lparr>locals := remove1 p (locals w)\<rparr>) p)
        else local_pvt_destroy
               (fst (ast_mutex_unlock (w\<lparr>locals := remove1 p (locals w)\<rparr>) p)) p,
        sched, 0)"
  using assms by (simp add: hangup_finish_def Let_def set_pvt_flag_def upd_pvt_def)

lemma mutex_unlock_locals_upd:
  "locals (fst (ast_mutex_unlock (w\<lparr>locals := ls\<rparr>) p)) = ls"
  "destroyed (fst (ast_mutex_unlock (w\<lparr>locals := ls\<rparr>) p)) = destroyed w"
  "pvt_flags (pvts (fst (ast_mutex_unlock (w\<lparr>locals := ls\<rparr>) p)) q) = pvt_flags (pvts w q)"
  "pvt_owner (pvts (fst (ast_mutex_unlock (w\<lparr>locals := ls\<rparr>) p)) q) = pvt_owner (pvts w q)"
  "pvt_chan (pvts (fst (ast_mutex_unlock (w\<lparr>locals := ls\<rparr>) p)) q) = pvt_chan (pvts w q)"
  by (simp_all add: ast_mutex_unlock_def upd_pvt_def)

lemma set_pvt_flag_fields:
  "locals (set_pvt_flag w p f) = locals w"
  "destroyed (set_pvt_flag w p f) = destroyed w"
  "chans (set_pvt_flag w p f) = chans w"
  "events (set_pvt_flag w p f) = events w"
  "pvt_owner (pvts (set_pvt_flag w p f) q) = pvt_owner (pvts w q)"
  "pvt_chan (pvts (set_pvt_flag w p f) q) = pvt_chan (pvts w q)"
  "pvt_flags (pvts (set_pvt_flag w p f) p) = ast_set_flag (pvt_flags (pvts w p)) f"
  by (simp_all add: set_pvt_flag_def upd_pvt_def)

text \<open>
  One call of \<open>local_hangup\<close>, taken alone. Let it take \<open>ast\<close> out of the pair \<open>p\<close> and
  leave, in the world \<open>w1\<close>, both endpoints of \<open>p\<close> null. Then it returns \<open>0\<close> and \<open>p\<close>
  is no longer in \<^verbatim>\<open>locals\<close>. The pair is handed to \<open>local_pvt_destroy\<close> within this
  call if and only if \<open>LOCAL_GLARE_DETECT\<close> is clear in \<open>w1\<close>. When the flag is set,
  nothing is destroyed by the hangup and \<open>LOCAL_CANCEL_QUEUE\<close> is set; a forwarder that
  then takes the mutex again finds no partner, leaves its locking loop at once, returns
  \<open>- 1\<close> and destroys the pair.
\<close>

lemma hangup_last_endpoint_call:
  assumes "ch_tech_pvt (chans w ast) = Some p"
    and "hangup_detach sched w ast p = Returned (w1, sched1)"
    and "pvt_owner (pvts w1 p) = None" and "pvt_chan (pvts w1 p) = None"
    and "distinct (locals w1)"
  shows "\<exists>w2. local_hangup sched w ast = Returned (w2, sched1, 0) \<and>
    p \<notin> set (locals w2) \<and>
    (destroyed w2 = destroyed w1 @ [p] \<longleftrightarrow> \<not> test_pvt_flag w1 p LOCAL_GLARE_DETECT) \<and>
    (test_pvt_flag w1 p LOCAL_GLARE_DETECT \<longrightarrow>
       destroyed w2 = destroyed w1 \<and> test_pvt_flag w2 p LOCAL_CANCEL_QUEUE \<and>
       (\<forall>rest isoutbound us us_locked f.
          queue_frame_lock_both rest (ast_mutex_lock w2 p) p isoutbound us us_locked
            (if isoutbound then pvt_owner (pvts (ast_mutex_lock w2 p) p)
             else pvt_chan (pvts (ast_mutex_lock w2 p) p))
            = Returned (ast_mutex_lock w2 p, rest, None, 0) \<and>
          queue_frame_deliver (ast_mutex_lock w2 p) p f None
            = Returned (local_pvt_destroy w2 p, - 1) \<and>
          destroyed (local_pvt_destroy w2 p) = destroyed w1 @ [p]))"
proof -
  let ?g = "test_pvt_flag w1 p LOCAL_GLARE_DETECT"
  let ?w2 = "if ?g
        then fst (ast_mutex_unlock
                    ((set_pvt_flag w1 p LOCAL_CANCEL_QUEUE)\<lparr>locals := remove1 p (locals w1)\<rparr>) p)
        else local_pvt_destroy
               (fst (ast_mutex_unlock (w1\<lparr>locals := remove1 p (locals w1)\<rparr>) p)) p"
  have r: "local_hangup sched w ast = Returned (?w2, sched1, 0)"
    using assms(1,2) hangup_finish_last [OF assms(3,4)]
    by (simp add: local_hangup_def Let_def)
  have l: "locals ?w2 = remove1 p (locals w1)"
    by (simp add: mutex_unlock_locals_upd destroy_fields)
  have notin: "p \<notin> set (locals ?w2)"
    unfolding l using assms(5) by simp
  have dg: "?g \<Longrightarrow> destroyed ?w2 = destroyed w1"
    by (simp add: mutex_unlock_locals_upd set_pvt_flag_fields)
  have dn: "\<not> ?g \<Longrightarrow> destroyed ?w2 = destroyed w1 @ [p]"
    by (simp add: mutex_unlock_locals_upd destroy_fields)
  have iff: "destroyed ?w2 = destroyed w1 @ [p] \<longleftrightarrow> \<not> ?g"
    using dg dn by (cases ?g) simp_all
  have cq: "?g \<Longrightarrow> test_pvt_flag ?w2 p LOCAL_CANCEL_QUEUE"
    by (simp add: test_pvt_flag_def mutex_unlock_locals_upd set_pvt_flag_fields test_set_flag
        LOCAL_CANCEL_QUEUE_def)
  have none: "pvt_owner (pvts (ast_mutex_lock ?w2 p) p) = None \<and>
              pvt_chan (pvts (ast_mutex_lock ?w2 p) p) = None"
    using assms(3,4)
    by (simp add: mutex_lock_fields mutex_unlock_locals_upd set_pvt_flag_fields destroy_fields)
  have fwd: "?g \<Longrightarrow>
      queue_frame_lock_both rest (ast_mutex_lock ?w2 p) p isoutbound us us_locked
            (if isoutbound then pvt_owner (pvts (ast_mutex_lock ?w2 p) p)
             else pvt_chan (pvts (ast_mutex_lock ?w2 p) p))
            = Returned (ast_mutex_lock ?w2 p, rest, None, 0) \<and>
          queue_frame_deliver (ast_mutex_lock ?w2 p) p f None
            = Returned (local_pvt_destroy ?w2 p, - 1) \<and>
          destroyed (local_pvt_destroy ?w2 p) = destroyed w1 @ [p]"
    for rest isoutbound us us_locked f
  proof -
    assume g: ?g
    have a: "queue_frame_lock_both rest (ast_mutex_lock ?w2 p) p isoutbound us us_locked
            (if isoutbound then pvt_owner (pvts (ast_mutex_lock ?w2 p) p)
             else pvt_chan (pvts (ast_mutex_lock ?w2 p) p))
            = Returned (ast_mutex_lock ?w2 p, rest, None, 0)"
      using none by (simp add: lock_both_none)
    have "test_pvt_flag (ast_mutex_lock ?w2 p) p LOCAL_CANCEL_QUEUE"
      using cq [OF g] by (simp add: test_pvt_flag_lock)
    then have b: "queue_frame_deliver (ast_mutex_lock ?w2 p) p f None
            = Returned (local_pvt_destroy ?w2 p, - 1)"
      by (simp add: queue_frame_deliver_cancelled mutex_lock_unlock)
    have c: "destroyed (local_pvt_destroy ?w2 p) = destroyed w1 @ [p]"
      using dg [OF g] by (simp add: destroy_fields)
    from a b c show ?thesis by blast
  qed
  from r notin iff dg cq fwd show ?thesis by blast
qed


lemma hangup_lock_chan_none:
  "pvt_chan (pvts w p) = None \<Longrightarrow> hangup_lock_chan sched w p = Returned (w, sched)"
  by (subst hangup_lock_chan.simps) simp

lemma hangup_detach_owner_last:
  assumes "\<not> IS_OUTBOUND w ast p" and "pvt_chan (pvts w p) = None"
  shows "hangup_detach sched w ast p =
     Returned
       (upd_chan
          (upd_pvt (log_event (ast_mutex_lock w p) (EvModuleUserRemove (pvt_u_owner (pvts w p))))
             p (\<lambda>pv. pv\<lparr>pvt_owner := None\<rparr>))
          ast (\<lambda>ch. ch\<lparr>ch_tech_pvt := None\<rparr>),
        sched)"
proof -
  let ?w2 = "log_event (ast_mutex_lock w p) (EvModuleUserRemove (pvt_u_owner (pvts w p)))"
  have c: "pvt_chan (pvts ?w2 p) = None"
    using assms(2) by (simp add: log_event_def mutex_lock_fields)
  have u: "pvt_u_owner (pvts (ast_mutex_lock w p) p) = pvt_u_owner (pvts w p)"
    by (simp add: ast_mutex_lock_def upd_pvt_def)
  have c2: "pvt_chan (pvts (upd_pvt ?w2 p (\<lambda>pv. pv\<lparr>pvt_owner := None\<rparr>)) p) = None"
    using c by (simp add: upd_pvt_def)
  show ?thesis
    using assms hangup_lock_chan_none [OF c, of sched] c2
    by (simp add: hangup_detach_def Let_def IS_OUTBOUND_lock mutex_lock_fields u)
qed

text \<open>
  The whole glare, run: the endpoint \<open>2\<close> hangs up and forwards the hangup towards the
  owner \<open>1\<close>, whose lock is held by a thread that hangs \<open>1\<close> up during the back-off.
  The pair is destroyed once, by the forwarder.
\<close>

lemma glare_end_to_end:
  "(case local_hangup [hangup_elsewhere 1] owner_busy_world 2 of
      Returned (w, sched, res) \<Rightarrow>
        res = 0 \<and> length sched = 0 \<and> destroyed w = [0] \<and> locals w = [] \<and>
        pvt_owner (pvts w 0) = None \<and> pvt_chan (pvts w 0) = None
    | Fault \<Rightarrow> False
    | Stuck \<Rightarrow> False)"
  by code_simp

text \<open>
  An entry point that forwards a frame towards a partner whose lock is held elsewhere
  sleeps in the world \<open>forwarder_asleep\<close>; if the pair, there on entry, is freed during
  the sleep, the forwarder wakes up on a freed private structure.
\<close>

lemma local_sendtext_wakes_on_freed:
  assumes "ch_tech_pvt (chans w ast) = Some p"
    and "(if IS_OUTBOUND w ast p then pvt_owner (pvts w p) else pvt_chan (pvts w p)) = Some other"
    and "\<not> (ch_generator (chans w ast) \<and> ch_generator (chans w other))"
    and "ch_busy (chans w other)"
    and "freed (e (forwarder_asleep w p)) p"
    and "\<not> freed w p"
  shows "local_sendtext (e # rest) w ast text = Fault"
proof -
  let ?w1 = "ast_mutex_lock w p"
  let ?g = "set_pvt_flag ?w1 p LOCAL_GLARE_DETECT"
  have busy: "ch_busy (chans ?g other)"
    using assms(4) by (simp add: set_pvt_flag_fields mutex_lock_fields)
  have held: "pvt_lock (pvts ?g p) \<noteq> 0"
    by (simp add: set_pvt_flag_def ast_mutex_lock_def upd_pvt_def)
  have fr: "freed (ast_mutex_lock (e (fst (ast_mutex_unlock ?g p))) p) p"
    using assms(5) by (simp add: freed_fields forwarder_asleep_def)
  have lb: "queue_frame_lock_both (e # rest) ?g p (IS_OUTBOUND w ast p) (Some ast) False (Some other)
      = Fault"
    unfolding lock_both_busy [OF busy held] using fr by (simp add: Let_def)
  have far: "(if IS_OUTBOUND w ast p then pvt_owner (pvts ?w1 p) else pvt_chan (pvts ?w1 p)) = Some other"
    using assms(2) by (simp add: mutex_lock_fields split: if_splits)
  have gen: "\<not> (ch_generator (chans ?w1 ast) \<and> ch_generator (chans ?w1 other))"
    using assms(3) by (simp add: mutex_lock_fields)
  have "local_queue_frame (e # rest) ?w1 p (IS_OUTBOUND w ast p) f (Some ast) False = Fault" for f
    using far gen lb assms(6) by (simp add: local_queue_frame_def freed_fields)
  then show ?thesis
    using assms(1) by (simp add: local_sendtext_def Let_def IS_OUTBOUND_lock unlock_if_ok_def)
qed

text \<open>
  Claim C4 (the pair is destroyed exactly once, by the hangup that nulls the second
  endpoint when \<open>LOCAL_GLARE_DETECT\<close> is clear, by the forwarder in flight when it is set)
  fails on two runs of the pair \<open>0\<close> of \<open>pair_world\<close>, each with a second forwarder at
  work while \<open>local_sendtext\<close> on the owner \<open>1\<close> sleeps in its back-off with
  \<open>LOCAL_GLARE_DETECT\<close> set.

  In the first run the channel \<open>2\<close> is hung up during the sleep: the forwarder of this
  hangup delivers its frame to the owner and clears \<open>LOCAL_GLARE_DETECT\<close>. The owner is
  hung up next: it finds the flag clear and destroys the pair at once, although the
  forwarder of \<open>local_sendtext\<close> is still in flight. That forwarder wakes up on a freed
  private structure.

  In the second run the forwarder of the hangup of the channel \<open>2\<close> backs off as well,
  the owner is hung up during that back-off (\<open>LOCAL_CANCEL_QUEUE\<close> is set), and the
  forwarder of the hangup wakes up first and destroys the pair. The forwarder of
  \<open>local_sendtext\<close> wakes up on a freed private structure; going on from what that
  structure held (no partner, \<open>LOCAL_CANCEL_QUEUE\<close> set), it hands the pair to
  \<open>local_pvt_destroy\<close> a second time.
\<close>

theorem local_hangup_two_forwarders:
  "test_pvt_flag (forwarder_asleep chan_busy_world 0) 0 LOCAL_GLARE_DETECT \<and>
   \<not> test_pvt_flag (hangup_elsewhere 2 (forwarder_asleep chan_busy_world 0)) 0 LOCAL_GLARE_DETECT \<and>
   destroyed (hangup_elsewhere 2 (forwarder_asleep chan_busy_world 0)) = [] \<and>
   destroyed (hangups_elsewhere (forwarder_asleep chan_busy_world 0)) = [0] \<and>
   (case local_sendtext [hangups_elsewhere] chan_busy_world 1 ''x'' of
      Returned r \<Rightarrow> False | Fault \<Rightarrow> True | Stuck \<Rightarrow> False) \<and>
   test_pvt_flag (forwarder_asleep both_busy_world 0) 0 LOCAL_GLARE_DETECT \<and>
   destroyed (glare_elsewhere (forwarder_asleep both_busy_world 0)) = [0] \<and>
   test_pvt_flag (glare_elsewhere (forwarder_asleep both_busy_world 0)) 0 LOCAL_CANCEL_QUEUE \<and>
   pvt_chan (pvts (glare_elsewhere (forwarder_asleep both_busy_world 0)) 0) = None \<and>
   (case local_sendtext [glare_elsewhere] both_busy_world 1 ''x'' of
      Returned r \<Rightarrow> False | Fault \<Rightarrow> True | Stuck \<Rightarrow> False) \<and>
   (case queue_frame_deliver (ast_mutex_lock (glare_elsewhere (forwarder_asleep both_busy_world 0)) 0)
           0 None None of
      Returned (w, r) \<Rightarrow> destroyed w = [0, 0] \<and> r = - 1
    | Fault \<Rightarrow> False
    | Stuck \<Rightarrow> False)"
  by code_simp

section \<open>A forward that is delivered\<close>

text \<open>
  For comparison with the cancelled forward: when the pair has not been freed, the
  partner is there, its lock is free and \<open>LOCAL_CANCEL_QUEUE\<close> is clear,
  \<open>local_queue_frame\<close> returns \<open>0\<close> without back-off, the frame is at the tail of the
  partner's read queue, and nothing is destroyed.
\<close>

lemma local_queue_frame_delivers:
  assumes "(if isoutbound then pvt_owner (pvts w p) else pvt_chan (pvts w p)) = Some other"
    and "\<not> (case us of
              Some u \<Rightarrow> ch_generator (chans w u) \<and> ch_generator (chans w other)
            | None \<Rightarrow> False)"
    and "\<not> ch_busy (chans w other)"
    and "\<not> test_pvt_flag w p LOCAL_CANCEL_QUEUE"
    and "\<not> freed w p"
  shows "\<exists>w'. local_queue_frame sched w p isoutbound (Some fr) us us_locked = Returned (w', sched, 0) \<and>
           ch_readq (chans w' other) = ch_readq (chans w other) @ [fr] \<and>
           destroyed w' = destroyed w"
proof -
  let ?g = "set_pvt_flag w p LOCAL_GLARE_DETECT"
  let ?l = "ast_channel_lock ?g other"
  have free: "\<not> ch_busy (chans ?g other)"
    using assms(3) by (simp add: set_pvt_flag_fields)
  have nc: "\<not> test_pvt_flag ?l p LOCAL_CANCEL_QUEUE"
    using assms(4)
    by (simp add: test_pvt_flag_def ast_channel_lock_def upd_chan_def set_pvt_flag_def upd_pvt_def
        test_set_flag flag_defs)
  let ?w1 = "if frametype fr = AST_FRAME_CONTROL \<and> subclass_integer fr = SubControl AST_CONTROL_RINGING
             then ast_setstate ?l other AST_STATE_RINGING else ?l"
  let ?w' = "clear_pvt_flag (ast_channel_unlock (ast_queue_frame ?w1 other fr) other) p LOCAL_GLARE_DETECT"
  have d: "queue_frame_deliver ?l p (Some fr) (Some other) = Returned (?w', 0)"
    using nc by (simp add: queue_frame_deliver_def Let_def)
  have r: "local_queue_frame sched w p isoutbound (Some fr) us us_locked = Returned (?w', sched, 0)"
    using assms(1,2,5) lock_both_free [OF free, of sched p isoutbound us us_locked] d
    by (simp add: local_queue_frame_def)
  have q: "ch_readq (chans ?w' other) = ch_readq (chans w other) @ [fr]"
    by (simp add: clear_pvt_flag_def ast_channel_unlock_def ast_queue_frame_def ast_setstate_def
        ast_channel_lock_def set_pvt_flag_def upd_chan_def upd_pvt_def)
  have ds: "destroyed ?w' = destroyed w"
    by (simp add: clear_pvt_flag_def ast_channel_unlock_def ast_queue_frame_def ast_setstate_def
        ast_channel_lock_def set_pvt_flag_def upd_chan_def upd_pvt_def)
  from r q ds show ?thesis by blast
qed

end
